theory Spec2Isabelle
  imports Main "HOL-Library.Sublist" "HOL-Library.AList"
begin

section \<open>Python values\<close>

text \<open>
  The handlers of \<^verbatim>\<open>aquarius/app/assets.py\<close> work on parsed JSON: \<^verbatim>\<open>request.json\<close>,
  the documents of the store and the values handed to \<^verbatim>\<open>jsonify\<close>. A JSON object is a
  Python dict, kept here as an association list in insertion order; \<^verbatim>\<open>None\<close> is
  \<open>JNull\<close>. Numbers are the integers (non-integral numbers are left out). A Python
  string is kept as the list of the characters of its encoding.
\<close>

datatype json =
    JNull
  | JBool bool
  | JNum int
  | JStr string
  | JArr "json list"
  | JObj "(string \<times> json) list"

type_synonym dict = "(string \<times> json) list"

text \<open>The exceptions a handler can leave with. \<open>Failure\<close> is an exception raised inside a
  collaborator (the store, the updater, a library call).\<close>

datatype exc =
    AssertionError string
  | TypeError
  | AttributeError
  | KeyError string
  | Failure string

text \<open>Truth value of a Python object, as \<^verbatim>\<open>not x\<close> and \<^verbatim>\<open>if x\<close> test it.\<close>

fun truthy :: "json \<Rightarrow> bool" where
  "truthy JNull = False"
| "truthy (JBool b) = b"
| "truthy (JNum n) = (n \<noteq> 0)"
| "truthy (JStr s) = (s \<noteq> [])"
| "truthy (JArr xs) = (xs \<noteq> [])"
| "truthy (JObj kvs) = (kvs \<noteq> [])"

text \<open>\<^verbatim>\<open>isinstance(x, dict)\<close>.\<close>

fun is_dict :: "json \<Rightarrow> bool" where
  "is_dict (JObj kvs) = True"
| "is_dict _ = False"

text \<open>\<^verbatim>\<open>data.get(key, None)\<close> and \<^verbatim>\<open>data.get(key)\<close> on a dict.\<close>

definition dict_get :: "dict \<Rightarrow> string \<Rightarrow> json" where
  "dict_get data key = (case map_of data key of None \<Rightarrow> JNull | Some v \<Rightarrow> v)"

text \<open>\<^verbatim>\<open>data.setdefault(key, default)\<close>: the key is added only when it is absent.\<close>

definition setdefault :: "string \<Rightarrow> json \<Rightarrow> dict \<Rightarrow> dict" where
  "setdefault key dflt data =
     (case map_of data key of None \<Rightarrow> AList.update key dflt data | Some v \<Rightarrow> data)"

text \<open>Substring test, Python's \<^verbatim>\<open>old in s\<close> on two strings.\<close>

fun occurs :: "string \<Rightarrow> string \<Rightarrow> bool" where
  "occurs old [] = (old = [])"
| "occurs old (c # cs) = (prefix old (c # cs) \<or> occurs old cs)"

text \<open>\<^verbatim>\<open>key in obj\<close> for a string key: key membership on a dict, substring on a string,
  element membership on a list, \<^verbatim>\<open>TypeError\<close> on \<^verbatim>\<open>None\<close>, a bool or a number.\<close>

fun py_in :: "string \<Rightarrow> json \<Rightarrow> exc + bool" where
  "py_in key (JObj kvs) = Inr (map_of kvs key \<noteq> None)"
| "py_in key (JStr s) = Inr (occurs key s)"
| "py_in key (JArr xs) = Inr (JStr key \<in> set xs)"
| "py_in key _ = Inl TypeError"

text \<open>\<^verbatim>\<open>obj[key]\<close> for a string key: \<^verbatim>\<open>KeyError\<close> on a dict without the key,
  \<^verbatim>\<open>TypeError\<close> on everything that is not a dict.\<close>

fun py_item :: "json \<Rightarrow> string \<Rightarrow> exc + json" where
  "py_item (JObj kvs) key =
     (case map_of kvs key of None \<Rightarrow> Inl (KeyError key) | Some v \<Rightarrow> Inr v)"
| "py_item _ key = Inl TypeError"

text \<open>
  \<^verbatim>\<open>s.replace(old, new)\<close>: the occurrences of \<open>old\<close> are found from left to right,
  without overlap, and each is replaced. With an empty \<open>old\<close> Python puts \<open>new\<close> before
  every character and at the end.
\<close>

function repl :: "string \<Rightarrow> string \<Rightarrow> string \<Rightarrow> string" where
  "repl [] old new = []"
| "repl (c # cs) old new =
     (if old \<noteq> [] \<and> prefix old (c # cs)
      then new @ repl (drop (length old) (c # cs)) old new
      else c # repl cs old new)"
  by pat_completeness auto
termination
  by (relation "measure (\<lambda>(s, old, new). length s)") (auto simp: neq_Nil_conv)

definition replace :: "string \<Rightarrow> string \<Rightarrow> string \<Rightarrow> string" where
  "replace s old new =
     (if old = [] then new @ concat (map (\<lambda>c. c # new) s) else repl s old new)"

section \<open>The DID rewrite of the query handler\<close>

text \<open>
  \<^verbatim>\<open>did_str = "did:op:"\<close> and \<^verbatim>\<open>esc_did_str = "did\\\:op\\\:"\<close>. In the Python literal
  \<^verbatim>\<open>\\\<close> is one backslash and \<^verbatim>\<open>\:\<close> is not an escape, so it stays a backslash and
  a colon: the escaped form has two backslashes before each colon.
\<close>

definition did_str :: string where
  "did_str = ''did:op:''"

definition esc_did_str :: string where
  "esc_did_str = ''did'' @ [CHR 0x5C, CHR 0x5C] @ '':op'' @ [CHR 0x5C, CHR 0x5C] @ '':''"

text \<open>The two replacements of \<^verbatim>\<open>es_query_ddo\<close> on the serialized query.\<close>

definition did_rewrite :: "string \<Rightarrow> string" where
  "did_rewrite querystr =
     (let querystr = replace querystr esc_did_str did_str
      in replace querystr did_str esc_did_str)"

section \<open>Requests, responses and effects\<close>

text \<open>Of a Flask request the handlers read \<^verbatim>\<open>request.remote_addr\<close> and
  \<^verbatim>\<open>request.json\<close>.\<close>

record request =
  remote_addr :: string
  req_json :: json

text \<open>
  A response is \<^verbatim>\<open>jsonify(x)\<close> (content type \<^verbatim>\<open>application/json\<close>), a
  \<^verbatim>\<open>Response(text, status, content_type="application/json")\<close> built from a serialized
  string, or a bare string returned with a status, which Flask sends as text.
\<close>

datatype mimetype = ApplicationJson | TextHtml

datatype payload = Jsonify json | Raw string

record response =
  status :: nat
  content_type :: mimetype
  payload :: payload

text \<open>The calls a handler makes on the store and on the Metadata Updater, in order.\<close>

datatype call =
    DaoGet string
  | DaoGetAllListedAssets
  | DaoRunEsQuery dict
  | NewMetadataUpdater string
  | DoSingleUpdate json

text \<open>A handler ends with a response or with an exception; it returns the store as it
  is afterwards and the calls it made.\<close>

type_synonym 'st result = "(exc + response) \<times> 'st \<times> call list"

text \<open>\<^verbatim>\<open>FullTextModel(text, sort, offset, page)\<close> of the driver interface.\<close>

record search_model =
  sm_text :: string
  sm_sort :: json
  sm_offset :: json
  sm_page :: json

text \<open>
  The collaborators of the module, none of them among the sources: the store behind
  \<^verbatim>\<open>dao\<close> (its state is \<open>'st\<close>), the Metadata Updater, the validators of \<^verbatim>\<open>plecos\<close>,
  the helpers of \<^verbatim>\<open>aquarius.app.util\<close> and \<^verbatim>\<open>aquarius.app.auth_util\<close>, and
  \<^verbatim>\<open>json.dumps\<close>/\<^verbatim>\<open>json.loads\<close>. \<open>str_lower\<close> is Python's \<^verbatim>\<open>str.lower\<close>, which
  folds every cased letter of Unicode and is taken as it is, as a function on strings.
  A collaborator called where the source would let
  its exception through, or would catch it, returns an \<open>exc\<close> on the left.
  \<open>do_single_update\<close> takes the \<^verbatim>\<open>other_db_index\<close> the updater was built with and
  returns the store it leaves, with the exception if it raised.
  \<open>sanitize_record\<close> changes the record in place and returns a string: both are returned.
\<close>

record 'st env =
  permitted :: "string \<Rightarrow> bool"
  get_signer_address :: "json \<Rightarrow> json \<Rightarrow> string option"
  dao_get :: "'st \<Rightarrow> string \<Rightarrow> exc + json"
  dao_get_all_listed_assets :: "'st \<Rightarrow> exc + dict list"
  dao_run_es_query :: "'st \<Rightarrow> dict \<Rightarrow> exc + json list \<times> json"
  db_index :: string
  do_single_update :: "string \<Rightarrow> json \<Rightarrow> 'st \<Rightarrow> exc option \<times> 'st"
  get_metadata_from_services :: "json \<Rightarrow> exc + json"
  sanitize_record :: "json \<Rightarrow> exc + json \<times> string"
  list_errors :: "(json \<Rightarrow> json) \<Rightarrow> json \<Rightarrow> json"
  is_valid_dict_local :: "json \<Rightarrow> bool"
  list_errors_dict_local :: "json \<Rightarrow> json"
  is_valid_dict_remote :: "json \<Rightarrow> bool"
  list_errors_dict_remote :: "json \<Rightarrow> json"
  make_paginate_response :: "json list \<times> json \<Rightarrow> search_model \<Rightarrow> json"
  json_dumps :: "json \<Rightarrow> string"
  json_loads :: "string \<Rightarrow> exc + json"
  str_lower :: "string \<Rightarrow> string"

text \<open>
  Modelled from the spec: \<^verbatim>\<open>has_update_request_permission\<close> of
  \<^verbatim>\<open>aquarius.app.auth_util\<close> is not among the sources. The spec has
  ``\<^verbatim>\<open>is_permitted_updater(address) -> bool\<close> checks against a configured allow-list'':
  the allow-list is the predicate \<open>permitted\<close> on address strings, and a value that
  is not a string is not on it.
\<close>

definition has_update_request_permission :: "'st env \<Rightarrow> json \<Rightarrow> bool" where
  "has_update_request_permission env address =
     (case address of JStr a \<Rightarrow> permitted env a | _ \<Rightarrow> False)"

section \<open>The responses of the module\<close>

text \<open>\<^verbatim>\<open>return f"{did} asset DID is not in OceanDB", 404\<close>\<close>

definition not_in_oceandb :: "string \<Rightarrow> response" where
  "not_in_oceandb did =
     \<lparr>status = 404, content_type = TextHtml,
      payload = Raw (did @ '' asset DID is not in OceanDB'')\<rparr>"

text \<open>\<^verbatim>\<open>return jsonify(error="Unauthorized."), 401\<close>\<close>

definition unauthorized :: response where
  "unauthorized =
     \<lparr>status = 401, content_type = ApplicationJson,
      payload = Jsonify (JObj [(''error'', JStr ''Unauthorized.'')])\<rparr>"

text \<open>\<^verbatim>\<open>return jsonify(error=f"Asset {did} not found."), 404\<close>\<close>

definition asset_not_found :: "string \<Rightarrow> response" where
  "asset_not_found did =
     \<lparr>status = 404, content_type = ApplicationJson,
      payload = Jsonify (JObj [(''error'', JStr (''Asset '' @ did @ '' not found.''))])\<rparr>"

text \<open>\<^verbatim>\<open>return jsonify("acknowledged."), 200\<close>\<close>

definition acknowledged :: response where
  "acknowledged =
     \<lparr>status = 200, content_type = ApplicationJson,
      payload = Jsonify (JStr ''acknowledged.'')\<rparr>"

text \<open>\<^verbatim>\<open>return jsonify(message="Invalid DDO format."), 400\<close>\<close>

definition invalid_ddo_format :: response where
  "invalid_ddo_format =
     \<lparr>status = 400, content_type = ApplicationJson,
      payload = Jsonify (JObj [(''message'', JStr ''Invalid DDO format.'')])\<rparr>"

text \<open>\<^verbatim>\<open>return jsonify(x)\<close>, with Flask's default status.\<close>

definition jsonify :: "json \<Rightarrow> response" where
  "jsonify x = \<lparr>status = 200, content_type = ApplicationJson, payload = Jsonify x\<rparr>"

text \<open>\<^verbatim>\<open>Response(text, 200, content_type="application/json")\<close>\<close>

definition json_response :: "string \<Rightarrow> response" where
  "json_response text = \<lparr>status = 200, content_type = ApplicationJson, payload = Raw text\<rparr>"

section \<open>The read handlers\<close>

text \<open>\<^verbatim>\<open>for r in records: sanitize_record(r)\<close>: every record is sanitized in place; the
  first exception ends the loop.\<close>

fun sanitize_all :: "'st env \<Rightarrow> json list \<Rightarrow> exc + json list" where
  "sanitize_all env [] = Inr []"
| "sanitize_all env (r # rs) =
     (case sanitize_record env r of
        Inl e \<Rightarrow> Inl e
      | Inr (r', text) \<Rightarrow>
          (case sanitize_all env rs of Inl e \<Rightarrow> Inl e | Inr rs' \<Rightarrow> Inr (r' # rs')))"

text \<open>\<^verbatim>\<open>GET /\<close>. The comprehension \<^verbatim>\<open>[a["id"] for a in asset_with_id if "id" in a]\<close>
  keeps the \<^verbatim>\<open>id\<close> of every document that has one.\<close>

definition get_assets_ids :: "'st env \<Rightarrow> 'st \<Rightarrow> 'st result" where
  "get_assets_ids env st =
     (case dao_get_all_listed_assets env st of
        Inl e \<Rightarrow> (Inl e, st, [DaoGetAllListedAssets])
      | Inr asset_with_id \<Rightarrow>
          let asset_ids = List.map_filter (\<lambda>a. map_of a ''id'') asset_with_id
          in (Inr (json_response (json_dumps env (JArr asset_ids))), st,
              [DaoGetAllListedAssets]))"

text \<open>\<^verbatim>\<open>GET /ddo/<did>\<close>. Every exception of the \<^verbatim>\<open>try\<close> block ends in the 404.\<close>

definition get_ddo :: "'st env \<Rightarrow> string \<Rightarrow> 'st \<Rightarrow> 'st result" where
  "get_ddo env did st =
     (case dao_get env st did of
        Inl e \<Rightarrow> (Inr (not_in_oceandb did), st, [DaoGet did])
      | Inr asset_record \<Rightarrow>
          (case sanitize_record env asset_record of
             Inl e \<Rightarrow> (Inr (not_in_oceandb did), st, [DaoGet did])
           | Inr (sanitized, text) \<Rightarrow> (Inr (json_response text), st, [DaoGet did])))"

text \<open>\<^verbatim>\<open>GET /ddo\<close>\<close>

definition get_asset_ddos :: "'st env \<Rightarrow> 'st \<Rightarrow> 'st result" where
  "get_asset_ddos env st =
     (case dao_get_all_listed_assets env st of
        Inl e \<Rightarrow> (Inl e, st, [DaoGetAllListedAssets])
      | Inr assets \<Rightarrow>
          (case sanitize_all env (map JObj assets) of
             Inl e \<Rightarrow> (Inl e, st, [DaoGetAllListedAssets])
           | Inr sanitized \<Rightarrow>
               (Inr (json_response (json_dumps env (JArr sanitized))), st,
                [DaoGetAllListedAssets])))"

text \<open>\<^verbatim>\<open>GET /metadata/<did>\<close>\<close>

definition get_metadata :: "'st env \<Rightarrow> string \<Rightarrow> 'st \<Rightarrow> 'st result" where
  "get_metadata env did st =
     (case dao_get env st did of
        Inl e \<Rightarrow> (Inr (not_in_oceandb did), st, [DaoGet did])
      | Inr asset_record \<Rightarrow>
          (case py_item asset_record ''service'' of
             Inl e \<Rightarrow> (Inr (not_in_oceandb did), st, [DaoGet did])
           | Inr services \<Rightarrow>
               (case get_metadata_from_services env services of
                  Inl e \<Rightarrow> (Inr (not_in_oceandb did), st, [DaoGet did])
                | Inr metadata \<Rightarrow>
                    (case sanitize_record env metadata of
                       Inl e \<Rightarrow> (Inr (not_in_oceandb did), st, [DaoGet did])
                     | Inr (sanitized, text) \<Rightarrow>
                         (Inr (json_response text), st, [DaoGet did])))))"

section \<open>Search\<close>

text \<open>
  \<^verbatim>\<open>POST /ddo/query\<close>. The two \<^verbatim>\<open>assert\<close>s raise \<^verbatim>\<open>AssertionError\<close>;
  \<^verbatim>\<open>"query_string" in query\<close> raises \<^verbatim>\<open>TypeError\<close> when the body has no
  \<^verbatim>\<open>query\<close>. Nothing is caught in this handler. After the two \<^verbatim>\<open>setdefault\<close>s
  the keys \<^verbatim>\<open>offset\<close> and \<^verbatim>\<open>page\<close> are present, so \<^verbatim>\<open>data["offset"]\<close> and
  \<^verbatim>\<open>data["page"]\<close> read them.
\<close>

definition es_query_ddo :: "'st env \<Rightarrow> request \<Rightarrow> 'st \<Rightarrow> 'st result" where
  "es_query_ddo env request st =
     (case req_json request of
        JObj data \<Rightarrow>
          let query = dict_get data ''query'' in
          (case py_in ''query_string'' query of
             Inl e \<Rightarrow> (Inl e, st, [])
           | Inr False \<Rightarrow> (Inl (AssertionError ''No query_string found.''), st, [])
           | Inr True \<Rightarrow>
               let querystr = json_dumps env query;
                   querystr = replace querystr esc_did_str did_str
               in (case json_loads env (replace querystr did_str esc_did_str) of
                     Inl e \<Rightarrow> (Inl e, st, [])
                   | Inr escaped \<Rightarrow>
                       let data = AList.update ''query'' escaped data;
                           data = setdefault ''page'' (JNum 1) data;
                           data = setdefault ''offset'' (JNum 100) data
                       in (case dao_run_es_query env st data of
                             Inl e \<Rightarrow> (Inl e, st, [DaoRunEsQuery data])
                           | Inr (ddos, total_results) \<Rightarrow>
                               let search_model =
                                     \<lparr>sm_text = [], sm_sort = dict_get data ''sort'',
                                      sm_offset = dict_get data ''offset'',
                                      sm_page = dict_get data ''page''\<rparr>
                               in (case sanitize_all env ddos of
                                     Inl e \<Rightarrow> (Inl e, st, [DaoRunEsQuery data])
                                   | Inr sanitized \<Rightarrow>
                                       let response =
                                             make_paginate_response env (sanitized, total_results)
                                               search_model
                                       in (Inr (json_response (json_dumps env response)), st,
                                           [DaoRunEsQuery data])))))
      | _ \<Rightarrow> (Inl (AssertionError ''invalid payload format.''), st, []))"

section \<open>Validation\<close>

text \<open>\<^verbatim>\<open>POST /ddo/validate\<close>\<close>

definition validate :: "'st env \<Rightarrow> request \<Rightarrow> 'st \<Rightarrow> 'st result" where
  "validate env request st =
     (if \<not> is_dict (req_json request)
      then (Inl (AssertionError ''invalid payload format.''), st, [])
      else
        let data = req_json request in
        if is_valid_dict_local env data then (Inr (jsonify (JBool True)), st, [])
        else (Inr (jsonify (list_errors env (list_errors_dict_local env) data)), st, []))"

text \<open>\<^verbatim>\<open>POST /ddo/validate-remote\<close>. \<^verbatim>\<open>"attributes" not in data\<close> is Python's \<^verbatim>\<open>in\<close> on
  whatever \<^verbatim>\<open>get_metadata_from_services\<close> returned.\<close>

definition validate_remote :: "'st env \<Rightarrow> request \<Rightarrow> 'st \<Rightarrow> 'st result" where
  "validate_remote env request st =
     (case req_json request of
        JObj data \<Rightarrow>
          (case map_of data ''service'' of
             None \<Rightarrow> (Inr invalid_ddo_format, st, [])
           | Some services \<Rightarrow>
               (case get_metadata_from_services env services of
                  Inl e \<Rightarrow> (Inl e, st, [])
                | Inr metadata \<Rightarrow>
                    (case py_in ''attributes'' metadata of
                       Inl e \<Rightarrow> (Inl e, st, [])
                     | Inr False \<Rightarrow> (Inr invalid_ddo_format, st, [])
                     | Inr True \<Rightarrow>
                         (case py_item metadata ''attributes'' of
                            Inl e \<Rightarrow> (Inl e, st, [])
                          | Inr attributes \<Rightarrow>
                              if is_valid_dict_remote env attributes
                              then (Inr (jsonify (JBool True)), st, [])
                              else (Inr (jsonify (list_errors env (list_errors_dict_remote env)
                                                    attributes)), st, [])))))
      | _ \<Rightarrow> (Inl (AssertionError ''invalid payload format.''), st, []))"

section \<open>Update and delist\<close>

text \<open>\<^verbatim>\<open>x.lower()\<close> on an arbitrary value: only a string has the method.\<close>

fun py_lower :: "'st env \<Rightarrow> json \<Rightarrow> exc + string" where
  "py_lower env (JStr s) = Inr (str_lower env s)"
| "py_lower env _ = Inl AttributeError"

text \<open>
  \<^verbatim>\<open>not _address or _address.lower() != address.lower()\<close>, with \<^verbatim>\<open>_address\<close> the
  string \<^verbatim>\<open>get_signer_address\<close> returned, or \<^verbatim>\<open>None\<close>.
\<close>

definition signer_differs :: "'st env \<Rightarrow> string option \<Rightarrow> json \<Rightarrow> exc + bool" where
  "signer_differs env recovered address =
     (case recovered of
        None \<Rightarrow> Inr True
      | Some a \<Rightarrow>
          if a = [] then Inr True
          else (case py_lower env address of
                  Inl e \<Rightarrow> Inl e
                | Inr l \<Rightarrow> Inr (str_lower env a \<noteq> l)))"

text \<open>
  \<^verbatim>\<open>PUT /ddo/update/<did>\<close>. \<open>denied\<close> is the outcome of the block under
  \<^verbatim>\<open>if request.remote_addr != "127.0.0.1"\<close>: \<open>Inr True\<close> where it returns the 401,
  \<open>Inr False\<close> where control reaches the \<^verbatim>\<open>try\<close>. Inside the \<^verbatim>\<open>try\<close> every
  exception ends in the textual 404.
\<close>

definition update_ddo_info :: "'st env \<Rightarrow> request \<Rightarrow> string \<Rightarrow> 'st \<Rightarrow> 'st result" where
  "update_ddo_info env request did st =
     (if \<not> (truthy (req_json request) \<and> is_dict (req_json request))
      then (Inl (AssertionError ''invalid payload format.''), st, [])
      else
        let data = (case req_json request of JObj kvs \<Rightarrow> kvs | _ \<Rightarrow> []);
            denied =
              (if remote_addr request \<noteq> ''127.0.0.1'' then
                 let address = dict_get data ''adminAddress'' in
                 if \<not> truthy address \<or> \<not> has_update_request_permission env address
                 then Inr True
                 else
                   let signature = dict_get data ''signature'';
                       recovered =
                         (if truthy signature
                          then get_signer_address env address signature else None)
                   in signer_differs env recovered address
               else Inr False)
        in (case denied of
              Inl e \<Rightarrow> (Inl e, st, [])
            | Inr True \<Rightarrow> (Inr unauthorized, st, [])
            | Inr False \<Rightarrow>
                (case dao_get env st did of
                   Inl e \<Rightarrow> (Inr (not_in_oceandb did), st, [DaoGet did])
                 | Inr asset_record \<Rightarrow>
                     if \<not> truthy asset_record
                     then (Inr (asset_not_found did), st, [DaoGet did])
                     else
                       let other_db_index = db_index env @ ''_plus'';
                           calls = [DaoGet did, NewMetadataUpdater other_db_index,
                                    DoSingleUpdate asset_record]
                       in (case do_single_update env other_db_index asset_record st of
                             (Some e, st') \<Rightarrow> (Inr (not_in_oceandb did), st', calls)
                           | (None, st') \<Rightarrow> (Inr acknowledged, st', calls)))))"

text \<open>\<^verbatim>\<open>DELETE /ddo/<did>\<close>. The checks are not under a test of the remote address.\<close>

definition delist_ddo :: "'st env \<Rightarrow> request \<Rightarrow> string \<Rightarrow> 'st \<Rightarrow> 'st result" where
  "delist_ddo env request did st =
     (if \<not> (truthy (req_json request) \<and> is_dict (req_json request))
      then (Inl (AssertionError ''invalid payload format.''), st, [])
      else
        let data = (case req_json request of JObj kvs \<Rightarrow> kvs | _ \<Rightarrow> []);
            address = dict_get data ''adminAddress''
        in
          if \<not> truthy address \<or> \<not> has_update_request_permission env address
          then (Inr unauthorized, st, [])
          else
            let signature = dict_get data ''signature'';
                recovered =
                  (if truthy signature
                   then get_signer_address env address signature else None)
            in (case signer_differs env recovered address of
                  Inl e \<Rightarrow> (Inl e, st, [])
                | Inr True \<Rightarrow> (Inr unauthorized, st, [])
                | Inr False \<Rightarrow>
                    (case dao_get env st did of
                       Inl e \<Rightarrow> (Inr (not_in_oceandb did), st, [DaoGet did])
                     | Inr asset_record \<Rightarrow>
                         if \<not> truthy asset_record
                         then (Inr (asset_not_found did), st, [DaoGet did])
                         else
                           let other_db_index = db_index env @ ''_plus'';
                               calls = [DaoGet did, NewMetadataUpdater other_db_index,
                                        DoSingleUpdate asset_record]
                           in (case do_single_update env other_db_index asset_record st of
                                 (Some e, st') \<Rightarrow> (Inr (not_in_oceandb did), st', calls)
                               | (None, st') \<Rightarrow> (Inr acknowledged, st', calls)))))"

section \<open>The routes of the blueprint\<close>

text \<open>The \<^verbatim>\<open>@assets.route\<close> decorators: one route for each handler.\<close>

datatype route =
    GET_assets
  | GET_ddo_did string
  | GET_ddo
  | GET_metadata_did string
  | POST_ddo_query
  | POST_ddo_validate
  | POST_ddo_validate_remote
  | PUT_ddo_update_did string
  | DELETE_ddo_did string

fun assets :: "'st env \<Rightarrow> route \<Rightarrow> request \<Rightarrow> 'st \<Rightarrow> 'st result" where
  "assets env GET_assets request st = get_assets_ids env st"
| "assets env (GET_ddo_did did) request st = get_ddo env did st"
| "assets env GET_ddo request st = get_asset_ddos env st"
| "assets env (GET_metadata_did did) request st = get_metadata env did st"
| "assets env POST_ddo_query request st = es_query_ddo env request st"
| "assets env POST_ddo_validate request st = validate env request st"
| "assets env POST_ddo_validate_remote request st = validate_remote env request st"
| "assets env (PUT_ddo_update_did did) request st = update_ddo_info env request did st"
| "assets env (DELETE_ddo_did did) request st = delist_ddo env request did st"

section \<open>The Metadata Updater, from its contract\<close>

text \<open>
  Modelled from the spec: \<^verbatim>\<open>MetadataUpdater\<close> (\<^verbatim>\<open>aquarius.events.metadata_updater\<close>),
  which the two write handlers call, is not among the sources, and neither are the Record
  Store and the Chain Event Source behind it. This section writes out the contract of
  \<^verbatim>\<open>do_single_update\<close> given in section 4.2 of the specification: a record of the main
  index carries its on-chain linkage, a purgatory flag, the last-processed marker and the
  needs-reconciliation flag; the Chain Event Source gives the events of an on-chain
  identifier, or is unreachable; a write to the plus index can fail.
\<close>

type_synonym position = "nat \<times> nat"

datatype event_kind = MetadataUpdated json | Retired

record chain_event =
  ev_position :: position
  ev_kind :: event_kind

record asset_record =
  rec_id :: string
  rec_service :: json
  isInPurgatory :: bool
  dataTokenInfo :: "string option"
  last_processed :: position
  needs_reconciliation :: bool

record indices =
  main_index :: "(string \<times> asset_record) list"
  plus_index :: "(string \<times> json) list"

datatype store_write =
    PutMain string asset_record
  | PutPlus string json
  | DeletePlus string

datatype update_error = InvalidRecord | TransientUnavailable

record chain_env =
  chain_events :: "string \<Rightarrow> chain_event list option"
  plus_writable :: bool
  plus_depends :: "json \<Rightarrow> bool"
  derive_plus :: "asset_record \<Rightarrow> json"

text \<open>
  Modelled from the spec: the order of the events of the absent Chain Event Source,
  ``ordered by block number then transaction/log index''. A position is a block number
  with a log index.
\<close>

definition position_le :: "position \<Rightarrow> position \<Rightarrow> bool" where
  "position_le p q = (fst p < fst q \<or> (fst p = fst q \<and> snd p \<le> snd q))"

text \<open>Modelled from the spec: the latest event the absent Chain Event Source reports for
  an identifier, the one at the greatest position.\<close>

fun newest_event :: "chain_event list \<Rightarrow> chain_event option" where
  "newest_event [] = None"
| "newest_event (e # es) =
     (case newest_event es of
        None \<Rightarrow> Some e
      | Some m \<Rightarrow> if position_le (ev_position e) (ev_position m) then Some m else Some e)"

text \<open>Modelled from the spec: \<^verbatim>\<open>put\<close> and \<^verbatim>\<open>delete\<close> of the absent Record Store, on the
  main index and on the plus index, each atomic on its one index.\<close>

fun apply_write :: "store_write \<Rightarrow> indices \<Rightarrow> indices" where
  "apply_write (PutMain did r) idx = idx\<lparr>main_index := AList.update did r (main_index idx)\<rparr>"
| "apply_write (PutPlus did v) idx = idx\<lparr>plus_index := AList.update did v (plus_index idx)\<rparr>"
| "apply_write (DeletePlus did) idx = idx\<lparr>plus_index := AList.delete did (plus_index idx)\<rparr>"

text \<open>
  Modelled from the spec: what the absent updater owes the plus index for a record. Step 4:
  on retirement ``remove or flag the corresponding entry in the plus index. If the plus
  index has no corresponding entry, this is not an error''. Step 5: ``If the plus index
  holds derived fields that depend on the changed fields, recompute and write those too;
  otherwise leave the plus entry untouched''.
\<close>

definition plus_plan :: "chain_env \<Rightarrow> asset_record \<Rightarrow> indices \<Rightarrow> store_write option" where
  "plus_plan cenv record idx =
     (case map_of (plus_index idx) (rec_id record) of
        None \<Rightarrow> None
      | Some entry \<Rightarrow>
          if isInPurgatory record then Some (DeletePlus (rec_id record))
          else if plus_depends cenv entry
          then Some (PutPlus (rec_id record) (derive_plus cenv record))
          else None)"

text \<open>Modelled from the spec: the plus-index write of the absent updater; \<open>None\<close> when
  the write was due and failed.\<close>

definition write_plus ::
  "chain_env \<Rightarrow> asset_record \<Rightarrow> indices \<Rightarrow> (indices \<times> store_write list) option" where
  "write_plus cenv record idx =
     (case plus_plan cenv record idx of
        None \<Rightarrow> Some (idx, [])
      | Some w \<Rightarrow> if plus_writable cenv then Some (apply_write w idx, [w]) else None)"

text \<open>
  Modelled from the spec: steps 4 to 6 of the absent updater on the record. Retirement
  sets the purgatory flag; a metadata update overwrites the payload and keeps the
  \<^verbatim>\<open>id\<close>; either way the marker moves to the event's position ``atomically with the
  content write (same single-index write)''.
\<close>

definition apply_event :: "chain_event \<Rightarrow> asset_record \<Rightarrow> asset_record" where
  "apply_event ev record =
     (case ev_kind ev of
        Retired \<Rightarrow> record\<lparr>isInPurgatory := True, last_processed := ev_position ev\<rparr>
      | MetadataUpdated metadata \<Rightarrow>
          record\<lparr>rec_service := metadata, last_processed := ev_position ev\<rparr>)"

text \<open>
  Modelled from the spec: the two writes of the absent updater, main index first. ``Main-
  index write succeeds but plus-index write fails: record is left in a flagged
  needs-reconciliation state (observable via a dirty marker)''.
\<close>

definition store_both ::
  "chain_env \<Rightarrow> asset_record \<Rightarrow> indices \<Rightarrow> indices \<times> store_write list" where
  "store_both cenv record idx =
     (let w = PutMain (rec_id record) record;
          idx1 = apply_write w idx
      in case write_plus cenv record idx1 of
           Some (idx2, ws) \<Rightarrow> (idx2, w # ws)
         | None \<Rightarrow>
             let w' = PutMain (rec_id record) (record\<lparr>needs_reconciliation := True\<rparr>)
             in (apply_write w' idx1, [w, w']))"

text \<open>
  Modelled from the spec: step 3 of the absent updater and the steps after it. ``If no
  newer event exists than what is already reflected in the stored record (tracked via a
  last-processed block/tx marker), this is a no-op: return success without writes.''
\<close>

definition apply_newest ::
  "chain_env \<Rightarrow> chain_event list \<Rightarrow> asset_record \<Rightarrow> indices \<Rightarrow>
   (update_error + unit) \<times> indices \<times> store_write list" where
  "apply_newest cenv events record idx =
     (case newest_event events of
        None \<Rightarrow> (Inr (), idx, [])
      | Some ev \<Rightarrow>
          if position_le (ev_position ev) (last_processed record) then (Inr (), idx, [])
          else
            let (idx', ws) = store_both cenv (apply_event ev record) idx
            in (Inr (), idx', ws))"

text \<open>
  Modelled from the spec: \<^verbatim>\<open>do_single_update(record)\<close> of the absent
  \<^verbatim>\<open>MetadataUpdater\<close>. An unresolvable on-chain identifier fails with
  \<^verbatim>\<open>InvalidRecord\<close> and an unreachable Chain Event Source with
  \<^verbatim>\<open>TransientUnavailable\<close>, both without writes. A flagged record is repaired ``before
  applying new changes'': the plus write is done again and the flag is cleared; while
  the plus index still fails the record stays flagged, nothing is applied, and the
  caller sees no hard failure. The result is the outcome, the two indices afterwards
  and the writes made.
\<close>

definition do_single_update_spec ::
  "chain_env \<Rightarrow> asset_record \<Rightarrow> indices \<Rightarrow>
   (update_error + unit) \<times> indices \<times> store_write list" where
  "do_single_update_spec cenv record idx =
     (case dataTokenInfo record of
        None \<Rightarrow> (Inl InvalidRecord, idx, [])
      | Some address \<Rightarrow>
          (case chain_events cenv address of
             None \<Rightarrow> (Inl TransientUnavailable, idx, [])
           | Some events \<Rightarrow>
               if needs_reconciliation record then
                 (case write_plus cenv record idx of
                    None \<Rightarrow> (Inr (), idx, [])
                  | Some (idx1, ws) \<Rightarrow>
                      let repaired = record\<lparr>needs_reconciliation := False\<rparr>;
                          w = PutMain (rec_id record) repaired;
                          (outcome, idx2, ws') =
                            apply_newest cenv events repaired (apply_write w idx1)
                      in (outcome, idx2, ws @ w # ws'))
               else apply_newest cenv events record idx))"

section \<open>A small deployment\<close>

text \<open>
  One store, one permitted address and one signature, to run the handlers on: the
  store maps a DID to its document, the allow-list holds \<open>0xabc\<close> in any case of
  letters, and the signature \<open>sig-abc\<close> recovers to \<open>0xABC\<close>.
\<close>

text \<open>The case fold of the small deployment: the letters A to Z, which is all that the
  hexadecimal addresses used below need.\<close>

definition ascii_lower_char :: "char \<Rightarrow> char" where
  "ascii_lower_char c =
     (case map_of (zip ''ABCDEFGHIJKLMNOPQRSTUVWXYZ'' ''abcdefghijklmnopqrstuvwxyz'') c of
        None \<Rightarrow> c
      | Some l \<Rightarrow> l)"

definition ascii_lower :: "string \<Rightarrow> string" where
  "ascii_lower s = map ascii_lower_char s"

definition demo_env :: "(string \<times> json) list env" where
  "demo_env =
     \<lparr>permitted = (\<lambda>a. ascii_lower a = ''0xabc''),
      get_signer_address =
        (\<lambda>address signature. if signature = JStr ''sig-abc'' then Some ''0xABC'' else None),
      dao_get =
        (\<lambda>st did. case map_of st did of
                     None \<Rightarrow> Inl (Failure ''not found'') | Some r \<Rightarrow> Inr r),
      dao_get_all_listed_assets =
        (\<lambda>st. Inr (List.map_filter (\<lambda>(k, v). case v of JObj d \<Rightarrow> Some d | _ \<Rightarrow> None) st)),
      dao_run_es_query = (\<lambda>st data. Inr (map snd st, JNum (int (length st)))),
      db_index = ''aquarius'',
      do_single_update = (\<lambda>other_db_index record st. (None, st)),
      get_metadata_from_services =
        (\<lambda>services. case services of JArr (s # ss) \<Rightarrow> Inr s | _ \<Rightarrow> Inr JNull),
      sanitize_record =
        (\<lambda>r. case r of
               JObj d \<Rightarrow>
                 (case map_of d ''id'' of
                    Some (JStr i) \<Rightarrow>
                      Inr (JObj (AList.delete ''_id'' d),
                           ''{'' @ [CHR 0x22] @ ''id'' @ [CHR 0x22] @ '': '' @ [CHR 0x22] @ i @
                           [CHR 0x22] @ ''}'')
                  | _ \<Rightarrow> Inr (JObj (AList.delete ''_id'' d), ''{}''))
             | _ \<Rightarrow> Inl TypeError),
      list_errors = (\<lambda>f d. f d),
      is_valid_dict_local = (\<lambda>d. py_in ''main'' d = Inr True),
      list_errors_dict_local = (\<lambda>d. JArr [JStr ''main is required'']),
      is_valid_dict_remote = (\<lambda>d. py_in ''main'' d = Inr True),
      list_errors_dict_remote = (\<lambda>d. JArr [JStr ''main is required'']),
      make_paginate_response =
        (\<lambda>(ddos, n) sm. JObj [(''results'', JArr ddos), (''page'', sm_page sm),
                             (''total_results'', n)]),
      json_dumps = (\<lambda>j. ''{}''),
      json_loads = (\<lambda>s. Inr (JObj [(''query_string'', JObj [])])),
      str_lower = ascii_lower\<rparr>"

definition demo_store :: "(string \<times> json) list" where
  "demo_store = [(''did:op:abc'', JObj [(''id'', JStr ''did:op:abc'')])]"

text \<open>The end-to-end scenario of the specification: \<open>did:op:abc\<close> bound to \<open>0xAAA\<close>,
  marker at block 90, a retirement event at block 100.\<close>

definition demo_record :: asset_record where
  "demo_record =
     \<lparr>rec_id = ''did:op:abc'', rec_service = JArr [], isInPurgatory = False,
      dataTokenInfo = Some ''0xAAA'', last_processed = (90, 0),
      needs_reconciliation = False\<rparr>"

definition demo_indices :: indices where
  "demo_indices =
     \<lparr>main_index = [(''did:op:abc'', demo_record)],
      plus_index = [(''did:op:abc'', JObj [(''price'', JNum 1)])]\<rparr>"

definition demo_chain :: chain_env where
  "demo_chain =
     \<lparr>chain_events =
        (\<lambda>a. if a = ''0xAAA'' then Some [\<lparr>ev_position = (100, 0), ev_kind = Retired\<rparr>]
             else Some []),
      plus_writable = True,
      plus_depends = (\<lambda>entry. True),
      derive_plus = (\<lambda>r. JObj [(''price'', JNum 1)])\<rparr>"


text \<open>The scenario after the retirement has been applied: the record is in purgatory,
  its marker is at block 100, and the plus index has lost the entry.\<close>

definition demo_retired_record :: asset_record where
  "demo_retired_record = demo_record\<lparr>isInPurgatory := True, last_processed := (100, 0)\<rparr>"

definition demo_retired_indices :: indices where
  "demo_retired_indices =
     \<lparr>main_index = [(''did:op:abc'', demo_retired_record)], plus_index = []\<rparr>"

section \<open>Properties of the DID rewrite\<close>

text \<open>Replacing reads a leading occurrence of \<open>old\<close> as one step.\<close>

lemma repl_old_append: "old \<noteq> [] \<Longrightarrow> repl (old @ u) old new = new @ repl u old new"
  by (cases old) simp_all

lemma repl_peel:
  assumes "repl t old new = x # ys" and "new = a # rest" and "x \<noteq> a"
  shows "\<exists>ts. t = x # ts \<and> repl ts old new = ys"
proof (cases t)
  case Nil
  with assms show ?thesis by simp
next
  case (Cons c cs)
  with assms show ?thesis by (auto split: if_splits)
qed

lemma repl_peel2:
  assumes "repl t old new = a # y # ys" and "new = a # b # rest" and "y \<noteq> b"
  shows "\<exists>ts. t = a # ts \<and> repl ts old new = y # ys"
proof (cases t)
  case Nil
  with assms show ?thesis by simp
next
  case (Cons c cs)
  with assms show ?thesis by (auto split: if_splits)
qed

lemma repl_peel_list:
  assumes "repl t old new = p @ ys" and "new = a # rest" and "a \<notin> set p"
  shows "\<exists>ts. t = p @ ts \<and> repl ts old new = ys"
  using assms
proof (induction p arbitrary: t)
  case Nil
  then show ?case by simp
next
  case (Cons x p)
  from Cons.prems have "repl t old new = x # (p @ ys)" and "x \<noteq> a" by auto
  with Cons.prems(2) obtain ts where t: "t = x # ts" and r: "repl ts old new = p @ ys"
    using repl_peel by blast
  from Cons.IH [OF r Cons.prems(2)] Cons.prems(3) obtain us where "ts = p @ us" "repl us old new = ys"
    by auto
  with t show ?case by simp
qed

lemma esc_through_repl:
  assumes "prefix esc_did_str (c # repl cs old new)" and "new = CHR ''d'' # CHR ''i'' # rest"
  shows "prefix esc_did_str (c # cs)"
proof -
  let ?tail = "[CHR 0x5C, CHR 0x5C] @ '':op'' @ [CHR 0x5C, CHR 0x5C] @ '':''"
  from assms(1) obtain zs where c: "c = CHR ''d''"
    and r0: "repl cs old new = CHR ''i'' # CHR ''d'' # ?tail @ zs"
    by (auto simp: prefix_def esc_did_str_def)
  from repl_peel [OF r0 assms(2)] obtain cs1 where cs: "cs = CHR ''i'' # cs1"
    and r1: "repl cs1 old new = CHR ''d'' # CHR 0x5C # (tl ?tail @ zs)"
    by auto
  from repl_peel2 [OF r1 assms(2)] obtain cs2 where cs1: "cs1 = CHR ''d'' # cs2"
    and r2: "repl cs2 old new = ?tail @ zs"
    by auto
  from repl_peel_list [OF r2 assms(2)] obtain cs3 where cs2: "cs2 = ?tail @ cs3"
    by auto
  show ?thesis
    by (simp add: c cs cs1 cs2 esc_did_str_def)
qed


lemma occurs_drop: "occurs old (drop n t) \<Longrightarrow> occurs old t"
proof (induction t arbitrary: n)
  case Nil
  then show ?case by simp
next
  case (Cons c cs)
  show ?case
  proof (cases n)
    case 0
    with Cons.prems show ?thesis by simp
  next
    case (Suc m)
    with Cons.prems have "occurs old (drop m cs)" by simp
    then have "occurs old cs" by (rule Cons.IH)
    then show ?thesis by simp
  qed
qed

lemma no_esc_after_did: "\<not> occurs esc_did_str v \<Longrightarrow> \<not> occurs esc_did_str (did_str @ v)"
  by (simp add: did_str_def esc_did_str_def)

lemma unescape_no_esc:
  "old = esc_did_str \<Longrightarrow> new = did_str \<Longrightarrow> \<not> occurs esc_did_str (repl s old new)"
proof (induction s old new rule: repl.induct)
  case (1 old new)
  then show ?case by (simp add: esc_did_str_def)
next
  case (2 c cs old new)
  show ?case
  proof (cases "old \<noteq> [] \<and> prefix old (c # cs)")
    case True
    from "2.IH"(1) [OF True "2.prems"]
    have "\<not> occurs esc_did_str (did_str @ repl (drop (length old) (c # cs)) old new)"
      by (rule no_esc_after_did)
    with True "2.prems" show ?thesis by simp
  next
    case False
    from "2.prems" have ne: "old \<noteq> []" by (simp add: esc_did_str_def)
    with False have np: "\<not> prefix esc_did_str (c # cs)" using "2.prems" by simp
    have "\<not> prefix esc_did_str (c # repl cs old new)"
      using esc_through_repl [of c cs old new] np "2.prems" by (auto simp: did_str_def)
    moreover have "\<not> occurs esc_did_str (repl cs old new)"
      using "2.IH"(2) [OF False "2.prems"] .
    moreover from False have "repl (c # cs) old new = c # repl cs old new" by auto
    ultimately show ?thesis by simp
  qed
qed

lemma escape_then_unescape:
  "old = did_str \<Longrightarrow> new = esc_did_str \<Longrightarrow> \<not> occurs esc_did_str t \<Longrightarrow>
   repl (repl t old new) new old = t"
proof (induction t old new rule: repl.induct)
  case (1 old new)
  then show ?case by simp
next
  case (2 c cs old new)
  have ne: "new \<noteq> []" using "2.prems"(2) by (simp add: esc_did_str_def)
  show ?case
  proof (cases "old \<noteq> [] \<and> prefix old (c # cs)")
    case True
    then obtain zs where zs: "c # cs = old @ zs" by (auto simp: prefix_def)
    then have d: "drop (length old) (c # cs) = zs" by simp
    have "\<not> occurs esc_did_str zs"
      using "2.prems"(3) occurs_drop [of esc_did_str "length old" "c # cs"] d by auto
    with "2.IH"(1) [OF True "2.prems"(1,2)] d have "repl (repl zs old new) new old = zs" by simp
    moreover have "repl (c # cs) old new = new @ repl zs old new"
      using True d by simp
    ultimately show ?thesis using zs ne by (simp add: repl_old_append)
  next
    case False
    from "2.prems"(3) have np: "\<not> prefix esc_did_str (c # cs)" and no: "\<not> occurs esc_did_str cs"
      by simp_all
    have "\<not> prefix new (c # repl cs old new)"
      using esc_through_repl [of c cs old new] np "2.prems"(2) by (auto simp: esc_did_str_def)
    moreover have "repl (repl cs old new) new old = cs"
      using "2.IH"(2) [OF False "2.prems"(1,2) no] .
    moreover from False have "repl (c # cs) old new = c # repl cs old new" by auto
    ultimately show ?thesis using ne by simp
  qed
qed

text \<open>
  C10. The rewrite of the query handler, which first replaces every escaped
  \<^verbatim>\<open>did\\:op\\:\<close> by \<^verbatim>\<open>did:op:\<close> and then every \<^verbatim>\<open>did:op:\<close> by the escaped form,
  is idempotent on every string: applied twice it gives what it gives applied once, so
  an escaped query is not escaped a second time.
\<close>

theorem did_rewrite_idempotent: "did_rewrite (did_rewrite querystr) = did_rewrite querystr"
proof -
  have e: "esc_did_str \<noteq> []" and d: "did_str \<noteq> []"
    by (simp_all add: esc_did_str_def did_str_def)
  let ?t = "repl querystr esc_did_str did_str"
  have "\<not> occurs esc_did_str ?t" by (rule unescape_no_esc) simp_all
  then have "repl (repl ?t did_str esc_did_str) esc_did_str did_str = ?t"
    by (rule escape_then_unescape [OF refl refl])
  then show ?thesis
    using e d by (simp add: did_rewrite_def replace_def)
qed

section \<open>The read handlers answer with the record or with the 404\<close>

text \<open>
  C7. \<^verbatim>\<open>GET /ddo/<did>\<close>. When \<^verbatim>\<open>dao.get(did)\<close> gives a record and
  \<^verbatim>\<open>sanitize_record\<close> serializes it, the answer is status 200 with content type
  \<^verbatim>\<open>application/json\<close> and that serialization as body. When \<^verbatim>\<open>dao.get\<close> raises, that
  is, when the DID cannot be retrieved, and also when \<^verbatim>\<open>sanitize_record\<close> raises, the
  answer is status 404 with the text \<^verbatim>\<open><did> asset DID is not in OceanDB\<close>, the
  requested DID in front. There is no third answer. The store is read once and not
  changed.
\<close>

theorem get_ddo_record_or_404:
  "(\<forall>asset_record sanitized text.
      dao_get env st did = Inr asset_record \<longrightarrow>
      sanitize_record env asset_record = Inr (sanitized, text) \<longrightarrow>
      get_ddo env did st =
        (Inr \<lparr>status = 200, content_type = ApplicationJson, payload = Raw text\<rparr>, st,
         [DaoGet did]))
   \<and> (\<forall>e. dao_get env st did = Inl e \<longrightarrow>
          get_ddo env did st =
            (Inr \<lparr>status = 404, content_type = TextHtml,
                  payload = Raw (did @ '' asset DID is not in OceanDB'')\<rparr>, st, [DaoGet did]))
   \<and> (\<forall>asset_record e.
          dao_get env st did = Inr asset_record \<longrightarrow>
          sanitize_record env asset_record = Inl e \<longrightarrow>
          get_ddo env did st =
            (Inr \<lparr>status = 404, content_type = TextHtml,
                  payload = Raw (did @ '' asset DID is not in OceanDB'')\<rparr>, st, [DaoGet did]))
   \<and> ((\<exists>asset_record sanitized text.
          dao_get env st did = Inr asset_record \<and>
          sanitize_record env asset_record = Inr (sanitized, text) \<and>
          get_ddo env did st =
            (Inr \<lparr>status = 200, content_type = ApplicationJson, payload = Raw text\<rparr>, st,
             [DaoGet did]))
        \<or> get_ddo env did st =
             (Inr \<lparr>status = 404, content_type = TextHtml,
                   payload = Raw (did @ '' asset DID is not in OceanDB'')\<rparr>, st,
              [DaoGet did]))"
  by (auto simp: get_ddo_def json_response_def not_in_oceandb_def split: sum.splits prod.splits)

text \<open>
  The same on the small deployment: the DID it holds is answered with its record, a DID
  it does not hold with the 404.
\<close>

theorem get_ddo_record_or_404_witness:
  "dao_get demo_env demo_store ''did:op:abc'' = Inr (JObj [(''id'', JStr ''did:op:abc'')]) \<and>
   sanitize_record demo_env (JObj [(''id'', JStr ''did:op:abc'')]) =
     Inr (JObj [(''id'', JStr ''did:op:abc'')],
          ''{'' @ [CHR 0x22] @ ''id'' @ [CHR 0x22] @ '': '' @ [CHR 0x22] @ ''did:op:abc'' @
          [CHR 0x22] @ ''}'') \<and>
   get_ddo demo_env ''did:op:abc'' demo_store =
     (Inr \<lparr>status = 200, content_type = ApplicationJson,
           payload = Raw (''{'' @ [CHR 0x22] @ ''id'' @ [CHR 0x22] @ '': '' @ [CHR 0x22] @
                          ''did:op:abc'' @ [CHR 0x22] @ ''}'')\<rparr>, demo_store,
      [DaoGet ''did:op:abc'']) \<and>
   dao_get demo_env demo_store ''did:op:zzz'' = Inl (Failure ''not found'') \<and>
   get_ddo demo_env ''did:op:zzz'' demo_store =
     (Inr \<lparr>status = 404, content_type = TextHtml,
           payload = Raw ''did:op:zzz asset DID is not in OceanDB''\<rparr>, demo_store,
      [DaoGet ''did:op:zzz''])"
  using get_ddo_record_or_404 [of demo_env demo_store "''did:op:abc''"]
    get_ddo_record_or_404 [of demo_env demo_store "''did:op:zzz''"]
  by (simp add: demo_env_def demo_store_def)

section \<open>Remote validation\<close>

text \<open>
  C5, amended. \<^verbatim>\<open>POST /ddo/validate-remote\<close> on a body that is a JSON object, where
  \<^verbatim>\<open>get_metadata_from_services\<close> gives a JSON object for the metadata entry of the
  body's services. When the body has no \<^verbatim>\<open>service\<close> key, or the entry has no
  \<^verbatim>\<open>attributes\<close> key, the answer is status 400 with the message
  \<^verbatim>\<open>Invalid DDO format.\<close> Otherwise the \<^verbatim>\<open>attributes\<close> of the entry are what is
  validated: the answer is JSON \<^verbatim>\<open>true\<close> when the remote validator accepts them and
  the list of its errors when it does not.
\<close>

theorem validate_remote_shape:
  assumes body: "req_json request = JObj data"
    and entry: "\<And>services. map_of data ''service'' = Some services \<Longrightarrow>
                 get_metadata_from_services env services = Inr (JObj metadata)"
  shows "validate_remote env request st =
     (if map_of data ''service'' = None \<or> map_of metadata ''attributes'' = None
      then (Inr \<lparr>status = 400, content_type = ApplicationJson,
                 payload = Jsonify (JObj [(''message'', JStr ''Invalid DDO format.'')])\<rparr>,
            st, [])
      else if is_valid_dict_remote env (dict_get metadata ''attributes'')
      then (Inr \<lparr>status = 200, content_type = ApplicationJson,
                 payload = Jsonify (JBool True)\<rparr>, st, [])
      else (Inr \<lparr>status = 200, content_type = ApplicationJson,
                 payload = Jsonify (list_errors env (list_errors_dict_remote env)
                                      (dict_get metadata ''attributes''))\<rparr>, st, []))"
proof (cases "map_of data ''service''")
  case None
  with body show ?thesis by (simp add: validate_remote_def invalid_ddo_format_def)
next
  case (Some services)
  from entry [OF Some] have m: "get_metadata_from_services env services = Inr (JObj metadata)" .
  show ?thesis
  proof (cases "map_of metadata ''attributes''")
    case None
    with body Some m show ?thesis by (simp add: validate_remote_def invalid_ddo_format_def)
  next
    case (Some attributes)
    with body \<open>map_of data ''service'' = Some services\<close> m show ?thesis
      by (simp add: validate_remote_def jsonify_def dict_get_def)
  qed
qed

text \<open>
  A DDO with one metadata service whose attributes the validator of the small deployment
  accepts.
\<close>

theorem validate_remote_shape_witness:
  "req_json \<lparr>remote_addr = ''10.0.0.7'',
             req_json = JObj [(''service'', JArr [JObj [(''type'', JStr ''metadata''),
                                (''attributes'', JObj [(''main'', JObj [])])]])]\<rparr> =
     JObj [(''service'', JArr [JObj [(''type'', JStr ''metadata''),
                                (''attributes'', JObj [(''main'', JObj [])])]])] \<and>
   get_metadata_from_services demo_env
     (JArr [JObj [(''type'', JStr ''metadata''), (''attributes'', JObj [(''main'', JObj [])])]]) =
     Inr (JObj [(''type'', JStr ''metadata''), (''attributes'', JObj [(''main'', JObj [])])]) \<and>
   validate_remote demo_env
     \<lparr>remote_addr = ''10.0.0.7'',
      req_json = JObj [(''service'', JArr [JObj [(''type'', JStr ''metadata''),
                                (''attributes'', JObj [(''main'', JObj [])])]])]\<rparr> demo_store =
     (Inr \<lparr>status = 200, content_type = ApplicationJson, payload = Jsonify (JBool True)\<rparr>,
      demo_store, [])"
  using validate_remote_shape [of
      "\<lparr>remote_addr = ''10.0.0.7'',
        req_json = JObj [(''service'', JArr [JObj [(''type'', JStr ''metadata''),
                                (''attributes'', JObj [(''main'', JObj [])])]])]\<rparr>"
      "[(''service'', JArr [JObj [(''type'', JStr ''metadata''),
                                (''attributes'', JObj [(''main'', JObj [])])]])]"
      demo_env
      "[(''type'', JStr ''metadata''), (''attributes'', JObj [(''main'', JObj [])])]"
      demo_store]
  by (simp add: demo_env_def dict_get_def)

text \<open>
  C5 as it was stated, for every request body, does not hold. A body that is a JSON
  array has no \<^verbatim>\<open>service\<close> key, and the handler leaves with \<^verbatim>\<open>AssertionError\<close> at
  \<^verbatim>\<open>assert isinstance(request.json, dict)\<close>: there is no 400. And on the body
  \<^verbatim>\<open>{"service": []}\<close> the small deployment finds no metadata entry
  (\<^verbatim>\<open>get_metadata_from_services\<close> gives \<^verbatim>\<open>None\<close>), \<^verbatim>\<open>"attributes" not in data\<close>
  raises \<^verbatim>\<open>TypeError\<close>, and again there is neither a 400 nor a validation.
\<close>

theorem validate_remote_not_400_counterexample:
  "py_in ''service'' (JArr []) = Inr False \<and>
   validate_remote demo_env \<lparr>remote_addr = ''10.0.0.7'', req_json = JArr []\<rparr> demo_store =
     (Inl (AssertionError ''invalid payload format.''), demo_store, []) \<and>
   get_metadata_from_services demo_env (JArr []) = Inr JNull \<and>
   validate_remote demo_env
     \<lparr>remote_addr = ''10.0.0.7'', req_json = JObj [(''service'', JArr [])]\<rparr> demo_store =
     (Inl TypeError, demo_store, [])"
  by (simp add: validate_remote_def demo_env_def)

section \<open>The query handler\<close>

text \<open>
  C8. \<^verbatim>\<open>POST /ddo/query\<close> on a body whose \<^verbatim>\<open>query\<close> is a JSON object. Without a
  \<^verbatim>\<open>query_string\<close> key in it the handler leaves with \<^verbatim>\<open>AssertionError\<close>: the store
  is not queried and there is no response. With the key, once \<^verbatim>\<open>json.loads\<close> has read
  the rewritten query back, the store is queried, with the body holding the rewritten
  query and the pagination defaults; and when the store answers and its documents are
  sanitized, the response is status 200 with the paginated result.
\<close>

theorem es_query_ddo_query_string:
  assumes body: "req_json request = JObj data"
    and query: "dict_get data ''query'' = JObj query"
  shows "(map_of query ''query_string'' = None \<longrightarrow>
            es_query_ddo env request st =
              (Inl (AssertionError ''No query_string found.''), st, []))
       \<and> (map_of query ''query_string'' \<noteq> None \<longrightarrow>
            (\<forall>escaped data' ddos total_results sanitized.
               json_loads env (did_rewrite (json_dumps env (JObj query))) = Inr escaped \<longrightarrow>
               data' = setdefault ''offset'' (JNum 100)
                         (setdefault ''page'' (JNum 1) (AList.update ''query'' escaped data)) \<longrightarrow>
               snd (snd (es_query_ddo env request st)) = [DaoRunEsQuery data'] \<and>
               (dao_run_es_query env st data' = Inr (ddos, total_results) \<longrightarrow>
                sanitize_all env ddos = Inr sanitized \<longrightarrow>
                fst (es_query_ddo env request st) =
                  Inr \<lparr>status = 200, content_type = ApplicationJson,
                       payload = Raw (json_dumps env
                         (make_paginate_response env (sanitized, total_results)
                            \<lparr>sm_text = [], sm_sort = dict_get data' ''sort'',
                             sm_offset = dict_get data' ''offset'',
                             sm_page = dict_get data' ''page''\<rparr>))\<rparr>)))"
  using body query
  by (auto simp: es_query_ddo_def did_rewrite_def Let_def json_response_def
           split: sum.splits prod.splits bool.splits)

text \<open>
  C9. Whenever \<^verbatim>\<open>POST /ddo/query\<close> gets as far as the store, the body it hands to
  \<^verbatim>\<open>dao.run_es_query\<close> has under \<^verbatim>\<open>page\<close> the caller's value, or 1 when the
  caller's body had no such key, and under \<^verbatim>\<open>offset\<close> the caller's value, or 100
  when the caller's body had no such key.
\<close>

theorem es_query_ddo_defaults:
  assumes body: "req_json request = JObj data"
    and query: "py_in ''query_string'' (dict_get data ''query'') = Inr True"
    and loads: "json_loads env (did_rewrite (json_dumps env (dict_get data ''query''))) =
                  Inr escaped"
  shows "\<exists>data'. snd (snd (es_query_ddo env request st)) = [DaoRunEsQuery data'] \<and>
           map_of data' ''page'' =
             (case map_of data ''page'' of None \<Rightarrow> Some (JNum 1) | Some v \<Rightarrow> Some v) \<and>
           map_of data' ''offset'' =
             (case map_of data ''offset'' of None \<Rightarrow> Some (JNum 100) | Some v \<Rightarrow> Some v)"
proof -
  let ?d = "setdefault ''offset'' (JNum 100)
              (setdefault ''page'' (JNum 1) (AList.update ''query'' escaped data))"
  have "snd (snd (es_query_ddo env request st)) = [DaoRunEsQuery ?d]"
    using body query loads
    by (auto simp: es_query_ddo_def did_rewrite_def Let_def split: sum.splits prod.splits)
  moreover have "map_of ?d ''page'' =
      (case map_of data ''page'' of None \<Rightarrow> Some (JNum 1) | Some v \<Rightarrow> Some v)"
    by (auto simp: setdefault_def update_conv' split: option.splits)
  moreover have "map_of ?d ''offset'' =
      (case map_of data ''offset'' of None \<Rightarrow> Some (JNum 100) | Some v \<Rightarrow> Some v)"
    by (auto simp: setdefault_def update_conv' split: option.splits)
  ultimately show ?thesis by blast
qed

text \<open>
  A query without \<^verbatim>\<open>query_string\<close> and a query with it, on the small deployment.
\<close>

theorem es_query_ddo_query_string_witness:
  "es_query_ddo demo_env
     \<lparr>remote_addr = ''10.0.0.7'',
      req_json = JObj [(''query'', JObj [(''text'', JStr ''covid'')])]\<rparr> demo_store =
     (Inl (AssertionError ''No query_string found.''), demo_store, []) \<and>
   snd (snd (es_query_ddo demo_env
     \<lparr>remote_addr = ''10.0.0.7'',
      req_json = JObj [(''query'', JObj [(''query_string'', JObj [(''query'', JStr ''covid'')])])]\<rparr>
     demo_store)) =
     [DaoRunEsQuery [(''query'', JObj [(''query_string'', JObj [])]), (''page'', JNum 1),
                     (''offset'', JNum 100)]] \<and>
   fst (es_query_ddo demo_env
     \<lparr>remote_addr = ''10.0.0.7'',
      req_json = JObj [(''query'', JObj [(''query_string'', JObj [(''query'', JStr ''covid'')])])]\<rparr>
     demo_store) =
     Inr \<lparr>status = 200, content_type = ApplicationJson, payload = Raw ''{}''\<rparr>"
  using es_query_ddo_query_string [of
      "\<lparr>remote_addr = ''10.0.0.7'',
        req_json = JObj [(''query'', JObj [(''text'', JStr ''covid'')])]\<rparr>"
      "[(''query'', JObj [(''text'', JStr ''covid'')])]"
      "[(''text'', JStr ''covid'')]" demo_env demo_store]
    es_query_ddo_query_string [of
      "\<lparr>remote_addr = ''10.0.0.7'',
        req_json = JObj [(''query'', JObj [(''query_string'', JObj [(''query'', JStr ''covid'')])])]\<rparr>"
      "[(''query'', JObj [(''query_string'', JObj [(''query'', JStr ''covid'')])])]"
      "[(''query_string'', JObj [(''query'', JStr ''covid'')])]" demo_env demo_store]
  by (simp add: demo_env_def demo_store_def dict_get_def setdefault_def did_rewrite_def
        replace_def esc_did_str_def did_str_def)

text \<open>
  A body with an \<^verbatim>\<open>offset\<close> of 25 and no \<^verbatim>\<open>page\<close>: the offset stays, the page
  becomes 1.
\<close>

theorem es_query_ddo_defaults_witness:
  "req_json \<lparr>remote_addr = ''10.0.0.7'',
      req_json = JObj [(''query'', JObj [(''query_string'', JObj [])]), (''offset'', JNum 25)]\<rparr> =
     JObj [(''query'', JObj [(''query_string'', JObj [])]), (''offset'', JNum 25)] \<and>
   py_in ''query_string''
     (dict_get [(''query'', JObj [(''query_string'', JObj [])]), (''offset'', JNum 25)] ''query'') =
     Inr True \<and>
   json_loads demo_env (did_rewrite (json_dumps demo_env
     (dict_get [(''query'', JObj [(''query_string'', JObj [])]), (''offset'', JNum 25)] ''query''))) =
     Inr (JObj [(''query_string'', JObj [])]) \<and>
   snd (snd (es_query_ddo demo_env
     \<lparr>remote_addr = ''10.0.0.7'',
      req_json = JObj [(''query'', JObj [(''query_string'', JObj [])]), (''offset'', JNum 25)]\<rparr>
     demo_store)) =
     [DaoRunEsQuery [(''query'', JObj [(''query_string'', JObj [])]), (''offset'', JNum 25),
                     (''page'', JNum 1)]]"
  using es_query_ddo_defaults [of
      "\<lparr>remote_addr = ''10.0.0.7'',
        req_json = JObj [(''query'', JObj [(''query_string'', JObj [])]), (''offset'', JNum 25)]\<rparr>"
      "[(''query'', JObj [(''query_string'', JObj [])]), (''offset'', JNum 25)]"
      demo_env "JObj [(''query_string'', JObj [])]" demo_store]
  by (simp add: es_query_ddo_def demo_env_def demo_store_def dict_get_def setdefault_def)

section \<open>Authorization of the write handlers\<close>

text \<open>
  C3, amended. \<^verbatim>\<open>PUT /ddo/update/<did>\<close> from an address other than the loopback
  address, with a body that is a non-empty JSON object, whose \<^verbatim>\<open>adminAddress\<close> is
  absent or not on the allow-list: the answer is 401 \<^verbatim>\<open>Unauthorized.\<close>, the store is
  as it was, and no call is made, neither \<^verbatim>\<open>dao.get\<close> nor the construction of the
  \<^verbatim>\<open>MetadataUpdater\<close> nor \<^verbatim>\<open>do_single_update\<close>.
\<close>

theorem update_ddo_info_unauthorized:
  assumes body: "req_json request = JObj data" and nonempty: "data \<noteq> []"
    and remote: "remote_addr request \<noteq> ''127.0.0.1''"
    and address: "map_of data ''adminAddress'' = None \<or>
                  \<not> has_update_request_permission env (dict_get data ''adminAddress'')"
  shows "update_ddo_info env request did st =
           (Inr \<lparr>status = 401, content_type = ApplicationJson,
                 payload = Jsonify (JObj [(''error'', JStr ''Unauthorized.'')])\<rparr>, st, [])"
proof -
  from address have "\<not> truthy (dict_get data ''adminAddress'') \<or>
      \<not> has_update_request_permission env (dict_get data ''adminAddress'')"
    by (auto simp: dict_get_def)
  with body nonempty remote show ?thesis
    by (auto simp: update_ddo_info_def unauthorized_def Let_def)
qed

text \<open>
  An address that is not on the allow-list of the small deployment.
\<close>

theorem update_ddo_info_unauthorized_witness:
  "req_json \<lparr>remote_addr = ''10.0.0.7'', req_json = JObj [(''adminAddress'', JStr ''0xdef'')]\<rparr> =
     JObj [(''adminAddress'', JStr ''0xdef'')] \<and>
   [(''adminAddress'', JStr ''0xdef'')] \<noteq> [] \<and>
   remote_addr \<lparr>remote_addr = ''10.0.0.7'', req_json = JObj [(''adminAddress'', JStr ''0xdef'')]\<rparr>
     \<noteq> ''127.0.0.1'' \<and>
   \<not> has_update_request_permission demo_env
       (dict_get [(''adminAddress'', JStr ''0xdef'')] ''adminAddress'') \<and>
   update_ddo_info demo_env
     \<lparr>remote_addr = ''10.0.0.7'', req_json = JObj [(''adminAddress'', JStr ''0xdef'')]\<rparr>
     ''did:op:abc'' demo_store =
     (Inr \<lparr>status = 401, content_type = ApplicationJson,
           payload = Jsonify (JObj [(''error'', JStr ''Unauthorized.'')])\<rparr>, demo_store, [])"
  using update_ddo_info_unauthorized [of
      "\<lparr>remote_addr = ''10.0.0.7'', req_json = JObj [(''adminAddress'', JStr ''0xdef'')]\<rparr>"
      "[(''adminAddress'', JStr ''0xdef'')]" demo_env "''did:op:abc''" demo_store]
  by (simp add: demo_env_def dict_get_def has_update_request_permission_def ascii_lower_def
        ascii_lower_char_def)

text \<open>
  C3 as it was stated does not hold for the empty JSON object: \<^verbatim>\<open>adminAddress\<close> is
  absent, but \<^verbatim>\<open>assert request.json and isinstance(request.json, dict)\<close> fails on
  \<^verbatim>\<open>{}\<close> and the handler leaves with \<^verbatim>\<open>AssertionError\<close> instead of answering
  401. (The store is untouched here too.)
\<close>

theorem update_ddo_info_empty_body_counterexample:
  "remote_addr \<lparr>remote_addr = ''10.0.0.7'', req_json = JObj []\<rparr> \<noteq> ''127.0.0.1'' \<and>
   map_of [] ''adminAddress'' = (None :: json option) \<and>
   update_ddo_info demo_env \<lparr>remote_addr = ''10.0.0.7'', req_json = JObj []\<rparr>
     ''did:op:abc'' demo_store =
     (Inl (AssertionError ''invalid payload format.''), demo_store, [])"
  by (simp add: update_ddo_info_def)

text \<open>
  C1, amended. \<^verbatim>\<open>DELETE /ddo/<did>\<close> applies to every caller, the loopback address
  included, the rule that \<^verbatim>\<open>PUT /ddo/update/<did>\<close> applies to callers other than the
  loopback address: a DELETE request has exactly the outcome that the same request has
  as a PUT from any non-loopback address. DELETE has no exemption for 127.0.0.1.
\<close>

theorem delist_ddo_as_remote_update:
  assumes "addr \<noteq> ''127.0.0.1''"
  shows "delist_ddo env request did st =
           update_ddo_info env (request\<lparr>remote_addr := addr\<rparr>) did st"
  using assms
  by (simp add: delist_ddo_def update_ddo_info_def Let_def split: sum.splits bool.splits)

text \<open>
  C1 as it was stated does not hold: from 127.0.0.1, with a body that carries neither
  \<^verbatim>\<open>adminAddress\<close> nor \<^verbatim>\<open>signature\<close>, PUT is acknowledged after reconciliation
  and DELETE is answered with 401.
\<close>

theorem delist_ddo_loopback_counterexample:
  "update_ddo_info demo_env
     \<lparr>remote_addr = ''127.0.0.1'', req_json = JObj [(''note'', JStr ''refresh'')]\<rparr>
     ''did:op:abc'' demo_store =
     (Inr \<lparr>status = 200, content_type = ApplicationJson,
           payload = Jsonify (JStr ''acknowledged.'')\<rparr>, demo_store,
      [DaoGet ''did:op:abc'', NewMetadataUpdater ''aquarius_plus'',
       DoSingleUpdate (JObj [(''id'', JStr ''did:op:abc'')])]) \<and>
   delist_ddo demo_env
     \<lparr>remote_addr = ''127.0.0.1'', req_json = JObj [(''note'', JStr ''refresh'')]\<rparr>
     ''did:op:abc'' demo_store =
     (Inr \<lparr>status = 401, content_type = ApplicationJson,
           payload = Jsonify (JObj [(''error'', JStr ''Unauthorized.'')])\<rparr>, demo_store, [])"
  by (simp add: update_ddo_info_def delist_ddo_def demo_env_def demo_store_def dict_get_def
        acknowledged_def unauthorized_def)

text \<open>
  A signed DELETE from the loopback address and the same request as a PUT from 10.0.0.7.
\<close>

theorem delist_ddo_as_remote_update_witness:
  "''10.0.0.7'' \<noteq> ''127.0.0.1'' \<and>
   delist_ddo demo_env
     \<lparr>remote_addr = ''127.0.0.1'',
      req_json = JObj [(''adminAddress'', JStr ''0xAbC''), (''signature'', JStr ''sig-abc'')]\<rparr>
     ''did:op:abc'' demo_store =
   update_ddo_info demo_env
     \<lparr>remote_addr = ''10.0.0.7'',
      req_json = JObj [(''adminAddress'', JStr ''0xAbC''), (''signature'', JStr ''sig-abc'')]\<rparr>
     ''did:op:abc'' demo_store \<and>
   update_ddo_info demo_env
     \<lparr>remote_addr = ''10.0.0.7'',
      req_json = JObj [(''adminAddress'', JStr ''0xAbC''), (''signature'', JStr ''sig-abc'')]\<rparr>
     ''did:op:abc'' demo_store =
     (Inr \<lparr>status = 200, content_type = ApplicationJson,
           payload = Jsonify (JStr ''acknowledged.'')\<rparr>, demo_store,
      [DaoGet ''did:op:abc'', NewMetadataUpdater ''aquarius_plus'',
       DoSingleUpdate (JObj [(''id'', JStr ''did:op:abc'')])])"
  using delist_ddo_as_remote_update [of "''10.0.0.7''" demo_env
      "\<lparr>remote_addr = ''127.0.0.1'',
        req_json = JObj [(''adminAddress'', JStr ''0xAbC''), (''signature'', JStr ''sig-abc'')]\<rparr>"
      "''did:op:abc''" demo_store]
  by (simp add: update_ddo_info_def demo_env_def demo_store_def dict_get_def
        acknowledged_def has_update_request_permission_def signer_differs_def ascii_lower_def
        ascii_lower_char_def)

lemma loopback_update_consults_store:
  assumes "req_json request = JObj data" and "data \<noteq> []"
  shows "\<exists>calls. snd (snd (update_ddo_info env (request\<lparr>remote_addr := ''127.0.0.1''\<rparr>) did st))
           = DaoGet did # calls"
  using assms
  by (auto simp: update_ddo_info_def Let_def split: sum.splits prod.splits option.splits)

text \<open>
  C2, amended. \<^verbatim>\<open>PUT /ddo/update/<did>\<close> from an address other than the loopback
  address, with a body that is a non-empty JSON object. The write is authorized, that
  is, the request is served as the same request from the loopback address is served,
  reading the store first, if and only if an \<^verbatim>\<open>adminAddress\<close> is supplied, it is on
  the allow-list, a \<^verbatim>\<open>signature\<close> is supplied, and \<^verbatim>\<open>get_signer_address\<close> recovers
  from it an address that \<^verbatim>\<open>str.lower\<close> makes equal to \<^verbatim>\<open>adminAddress\<close>. In every
  other case the answer is 401 \<^verbatim>\<open>Unauthorized.\<close> with no call made. This holds for
  whatever \<^verbatim>\<open>str.lower\<close> does to the two strings.
\<close>

theorem update_ddo_info_authorization:
  assumes body: "req_json request = JObj data" and nonempty: "data \<noteq> []"
    and remote: "remote_addr request \<noteq> ''127.0.0.1''"
    and address: "address = dict_get data ''adminAddress''"
    and signature: "signature = dict_get data ''signature''"
  shows "update_ddo_info env request did st =
           (if truthy address \<and> has_update_request_permission env address \<and>
               truthy signature \<and>
               (\<exists>signer. get_signer_address env address signature = Some signer \<and>
                         signer \<noteq> [] \<and>
                         py_lower env address = Inr (str_lower env signer))
            then update_ddo_info env (request\<lparr>remote_addr := ''127.0.0.1''\<rparr>) did st
            else (Inr \<lparr>status = 401, content_type = ApplicationJson,
                       payload = Jsonify (JObj [(''error'', JStr ''Unauthorized.'')])\<rparr>,
                  st, []))
         \<and> (\<exists>calls. snd (snd (update_ddo_info env (request\<lparr>remote_addr := ''127.0.0.1''\<rparr>)
                                 did st)) = DaoGet did # calls)"
proof
  show "\<exists>calls. snd (snd (update_ddo_info env (request\<lparr>remote_addr := ''127.0.0.1''\<rparr>) did st))
          = DaoGet did # calls"
    using body nonempty by (rule loopback_update_consults_store)
next
  show "update_ddo_info env request did st =
           (if truthy address \<and> has_update_request_permission env address \<and>
               truthy signature \<and>
               (\<exists>signer. get_signer_address env address signature = Some signer \<and>
                         signer \<noteq> [] \<and>
                         py_lower env address = Inr (str_lower env signer))
            then update_ddo_info env (request\<lparr>remote_addr := ''127.0.0.1''\<rparr>) did st
            else (Inr \<lparr>status = 401, content_type = ApplicationJson,
                       payload = Jsonify (JObj [(''error'', JStr ''Unauthorized.'')])\<rparr>,
                  st, []))"
  proof (cases "truthy address \<and> has_update_request_permission env address")
    case False
    with body nonempty remote address show ?thesis
      by (auto simp: update_ddo_info_def unauthorized_def Let_def)
  next
    case True
    then obtain a where a: "address = JStr a" "a \<noteq> []"
      by (cases address) (auto simp: has_update_request_permission_def)
    show ?thesis
    proof (cases "truthy signature")
      case False
      with True body nonempty remote address signature show ?thesis
        by (simp add: update_ddo_info_def unauthorized_def Let_def signer_differs_def)
    next
      case sig: True
      show ?thesis
      proof (cases "get_signer_address env address signature")
        case None
        with True sig body nonempty remote address signature show ?thesis
          by (simp add: update_ddo_info_def unauthorized_def Let_def signer_differs_def)
      next
        case (Some signer)
        have den: "signer_differs env (Some signer) address =
                     Inr (\<not> (signer \<noteq> [] \<and> str_lower env a = str_lower env signer))"
          using a by (auto simp: signer_differs_def)
        have cond: "(\<exists>s. get_signer_address env address signature = Some s \<and> s \<noteq> [] \<and>
                         py_lower env address = Inr (str_lower env s)) \<longleftrightarrow>
                    signer \<noteq> [] \<and> str_lower env a = str_lower env signer"
          using Some a by auto
        show ?thesis
          using True sig Some den body nonempty remote address [symmetric] signature [symmetric]
          unfolding cond
          by (simp add: update_ddo_info_def unauthorized_def Let_def)
      qed
    qed
  qed
qed

text \<open>
  The permitted address in mixed case, with the signature that recovers to it in upper
  case; the fold of the small deployment makes the two equal, and the request is served:
  the store is read, the record reconciled and the update acknowledged.
\<close>

theorem update_ddo_info_authorization_witness:
  "req_json \<lparr>remote_addr = ''10.0.0.7'',
             req_json = JObj [(''adminAddress'', JStr ''0xAbC''),
                              (''signature'', JStr ''sig-abc'')]\<rparr> =
     JObj [(''adminAddress'', JStr ''0xAbC''), (''signature'', JStr ''sig-abc'')] \<and>
   [(''adminAddress'', JStr ''0xAbC''), (''signature'', JStr ''sig-abc'')] \<noteq> [] \<and>
   remote_addr \<lparr>remote_addr = ''10.0.0.7'',
                req_json = JObj [(''adminAddress'', JStr ''0xAbC''),
                                 (''signature'', JStr ''sig-abc'')]\<rparr> \<noteq> ''127.0.0.1'' \<and>
   JStr ''0xAbC'' =
     dict_get [(''adminAddress'', JStr ''0xAbC''), (''signature'', JStr ''sig-abc'')]
       ''adminAddress'' \<and>
   JStr ''sig-abc'' =
     dict_get [(''adminAddress'', JStr ''0xAbC''), (''signature'', JStr ''sig-abc'')]
       ''signature'' \<and>
   has_update_request_permission demo_env (JStr ''0xAbC'') \<and>
   get_signer_address demo_env (JStr ''0xAbC'') (JStr ''sig-abc'') = Some ''0xABC'' \<and>
   py_lower demo_env (JStr ''0xAbC'') = Inr (str_lower demo_env ''0xABC'') \<and>
   update_ddo_info demo_env
     \<lparr>remote_addr = ''10.0.0.7'',
      req_json = JObj [(''adminAddress'', JStr ''0xAbC''), (''signature'', JStr ''sig-abc'')]\<rparr>
     ''did:op:abc'' demo_store =
   update_ddo_info demo_env
     (\<lparr>remote_addr = ''10.0.0.7'',
       req_json = JObj [(''adminAddress'', JStr ''0xAbC''), (''signature'', JStr ''sig-abc'')]\<rparr>
      \<lparr>remote_addr := ''127.0.0.1''\<rparr>)
     ''did:op:abc'' demo_store \<and>
   update_ddo_info demo_env
     (\<lparr>remote_addr = ''10.0.0.7'',
       req_json = JObj [(''adminAddress'', JStr ''0xAbC''), (''signature'', JStr ''sig-abc'')]\<rparr>
      \<lparr>remote_addr := ''127.0.0.1''\<rparr>)
     ''did:op:abc'' demo_store =
     (Inr \<lparr>status = 200, content_type = ApplicationJson,
           payload = Jsonify (JStr ''acknowledged.'')\<rparr>, demo_store,
      [DaoGet ''did:op:abc'', NewMetadataUpdater ''aquarius_plus'',
       DoSingleUpdate (JObj [(''id'', JStr ''did:op:abc'')])])"
  using update_ddo_info_authorization [of
      "\<lparr>remote_addr = ''10.0.0.7'',
        req_json = JObj [(''adminAddress'', JStr ''0xAbC''), (''signature'', JStr ''sig-abc'')]\<rparr>"
      "[(''adminAddress'', JStr ''0xAbC''), (''signature'', JStr ''sig-abc'')]"
      "JStr ''0xAbC''" "JStr ''sig-abc''" demo_env "''did:op:abc''" demo_store]
  by (simp add: update_ddo_info_def demo_env_def demo_store_def dict_get_def acknowledged_def
        has_update_request_permission_def ascii_lower_def ascii_lower_char_def)

text \<open>
  C2 as it was stated does not hold for the empty JSON object: the address is missing,
  yet the handler leaves with \<^verbatim>\<open>AssertionError\<close> at its first \<^verbatim>\<open>assert\<close> and there
  is no 401.
\<close>

theorem update_ddo_info_mismatch_counterexample:
  "remote_addr \<lparr>remote_addr = ''203.0.113.9'', req_json = JObj []\<rparr> \<noteq> ''127.0.0.1'' \<and>
   \<not> truthy (dict_get [] ''adminAddress'') \<and>
   fst (update_ddo_info demo_env \<lparr>remote_addr = ''203.0.113.9'', req_json = JObj []\<rparr>
          ''did:op:xyz'' demo_store) = Inl (AssertionError ''invalid payload format.'') \<and>
   fst (update_ddo_info demo_env \<lparr>remote_addr = ''203.0.113.9'', req_json = JObj []\<rparr>
          ''did:op:xyz'' demo_store) \<noteq>
     Inr \<lparr>status = 401, content_type = ApplicationJson,
          payload = Jsonify (JObj [(''error'', JStr ''Unauthorized.'')])\<rparr>"
  by (simp add: update_ddo_info_def dict_get_def)

section \<open>Content types\<close>

lemma get_assets_ids_json:
  "get_assets_ids env st = (Inr response, st', calls) \<Longrightarrow>
   content_type response = ApplicationJson"
  by (auto simp: get_assets_ids_def json_response_def Let_def split: sum.splits)

lemma get_asset_ddos_json:
  "get_asset_ddos env st = (Inr response, st', calls) \<Longrightarrow>
   content_type response = ApplicationJson"
  by (auto simp: get_asset_ddos_def json_response_def split: sum.splits)

lemma get_ddo_json_or_text:
  "get_ddo env did st = (Inr response, st', calls) \<Longrightarrow>
   content_type response = ApplicationJson \<or> response = not_in_oceandb did"
  by (auto simp: get_ddo_def json_response_def split: sum.splits prod.splits)

lemma get_metadata_json_or_text:
  "get_metadata env did st = (Inr response, st', calls) \<Longrightarrow>
   content_type response = ApplicationJson \<or> response = not_in_oceandb did"
  by (auto simp: get_metadata_def json_response_def split: sum.splits prod.splits)

lemma es_query_ddo_json:
  "es_query_ddo env request st = (Inr response, st', calls) \<Longrightarrow>
   content_type response = ApplicationJson"
  by (auto simp: es_query_ddo_def json_response_def Let_def
           split: json.splits sum.splits prod.splits bool.splits)

lemma validate_json:
  "validate env request st = (Inr response, st', calls) \<Longrightarrow>
   content_type response = ApplicationJson"
  by (auto simp: validate_def jsonify_def Let_def split: if_splits)

lemma validate_remote_json:
  "validate_remote env request st = (Inr response, st', calls) \<Longrightarrow>
   content_type response = ApplicationJson"
  by (auto simp: validate_remote_def jsonify_def invalid_ddo_format_def
           split: json.splits option.splits sum.splits bool.splits if_splits)

lemma delist_ddo_json_or_text:
  "delist_ddo env request did st = (Inr response, st', calls) \<Longrightarrow>
   content_type response = ApplicationJson \<or> response = not_in_oceandb did"
  by (auto simp: delist_ddo_def Let_def unauthorized_def asset_not_found_def acknowledged_def
           split: if_splits sum.splits bool.splits prod.splits option.splits)

lemma remote_update_is_delist:
  "remote_addr request \<noteq> ''127.0.0.1'' \<Longrightarrow>
   update_ddo_info env request did st = delist_ddo env request did st"
  by (simp add: delist_ddo_def update_ddo_info_def Let_def split: sum.splits bool.splits)

lemma update_ddo_info_json_or_text:
  "update_ddo_info env request did st = (Inr response, st', calls) \<Longrightarrow>
   content_type response = ApplicationJson \<or> response = not_in_oceandb did"
proof (cases "remote_addr request = ''127.0.0.1''")
  case False
  assume "update_ddo_info env request did st = (Inr response, st', calls)"
  with False have "delist_ddo env request did st = (Inr response, st', calls)"
    by (simp add: remote_update_is_delist)
  then show ?thesis by (rule delist_ddo_json_or_text)
next
  case True
  assume "update_ddo_info env request did st = (Inr response, st', calls)"
  with True show ?thesis
    by (auto simp: update_ddo_info_def Let_def asset_not_found_def acknowledged_def
             split: if_splits sum.splits prod.splits option.splits)
qed

text \<open>
  C6, amended. Every response of the blueprint has content type \<^verbatim>\<open>application/json\<close>,
  except the 404 with the text \<^verbatim>\<open><did> asset DID is not in OceanDB\<close>, and that one is
  returned by four routes: \<^verbatim>\<open>GET /ddo/<did>\<close>, \<^verbatim>\<open>GET /metadata/<did>\<close>,
  \<^verbatim>\<open>PUT /ddo/update/<did>\<close> and \<^verbatim>\<open>DELETE /ddo/<did>\<close>. All other failure responses
  of PUT and DELETE, the 401 and the 404 \<^verbatim>\<open>Asset <did> not found.\<close>, are JSON.
\<close>

theorem responses_json_or_not_in_oceandb:
  assumes "assets env route request st = (Inr response, st', calls)"
  shows "content_type response = ApplicationJson \<or>
         (\<exists>did. (route = GET_ddo_did did \<or> route = GET_metadata_did did \<or>
                 route = PUT_ddo_update_did did \<or> route = DELETE_ddo_did did) \<and>
                response = \<lparr>status = 404, content_type = TextHtml,
                            payload = Raw (did @ '' asset DID is not in OceanDB'')\<rparr>)"
proof (cases route)
  case GET_assets
  with assms show ?thesis by (simp add: get_assets_ids_json)
next
  case (GET_ddo_did did)
  with assms get_ddo_json_or_text [of env did st response st' calls] show ?thesis
    by (auto simp: not_in_oceandb_def)
next
  case GET_ddo
  with assms show ?thesis by (simp add: get_asset_ddos_json)
next
  case (GET_metadata_did did)
  with assms get_metadata_json_or_text [of env did st response st' calls] show ?thesis
    by (auto simp: not_in_oceandb_def)
next
  case POST_ddo_query
  with assms show ?thesis by (simp add: es_query_ddo_json)
next
  case POST_ddo_validate
  with assms show ?thesis by (simp add: validate_json)
next
  case POST_ddo_validate_remote
  with assms show ?thesis by (simp add: validate_remote_json)
next
  case (PUT_ddo_update_did did)
  with assms update_ddo_info_json_or_text [of env request did st response st' calls]
  show ?thesis by (auto simp: not_in_oceandb_def)
next
  case (DELETE_ddo_did did)
  with assms delist_ddo_json_or_text [of env request did st response st' calls]
  show ?thesis by (auto simp: not_in_oceandb_def)
qed

text \<open>
  The textual 404 of \<^verbatim>\<open>GET /ddo/<did>\<close> for a DID the small deployment does not hold,
  and that of \<^verbatim>\<open>GET /metadata/<did>\<close> for a record without \<^verbatim>\<open>service\<close>.
\<close>

theorem responses_json_or_not_in_oceandb_witness:
  "assets demo_env (GET_ddo_did ''did:op:zzz'')
     \<lparr>remote_addr = ''10.0.0.7'', req_json = JNull\<rparr> demo_store =
     (Inr \<lparr>status = 404, content_type = TextHtml,
           payload = Raw ''did:op:zzz asset DID is not in OceanDB''\<rparr>, demo_store,
      [DaoGet ''did:op:zzz'']) \<and>
   (content_type \<lparr>status = 404, content_type = TextHtml,
                  payload = Raw ''did:op:zzz asset DID is not in OceanDB''\<rparr> = ApplicationJson \<or>
    (\<exists>did. (GET_ddo_did ''did:op:zzz'' = GET_ddo_did did \<or>
            GET_ddo_did ''did:op:zzz'' = GET_metadata_did did \<or>
            GET_ddo_did ''did:op:zzz'' = PUT_ddo_update_did did \<or>
            GET_ddo_did ''did:op:zzz'' = DELETE_ddo_did did) \<and>
           \<lparr>status = 404, content_type = TextHtml,
            payload = Raw ''did:op:zzz asset DID is not in OceanDB''\<rparr> =
           \<lparr>status = 404, content_type = TextHtml,
            payload = Raw (did @ '' asset DID is not in OceanDB'')\<rparr>)) \<and>
   assets demo_env (GET_metadata_did ''did:op:abc'')
     \<lparr>remote_addr = ''10.0.0.7'', req_json = JNull\<rparr> demo_store =
     (Inr \<lparr>status = 404, content_type = TextHtml,
           payload = Raw ''did:op:abc asset DID is not in OceanDB''\<rparr>, demo_store,
      [DaoGet ''did:op:abc'']) \<and>
   (content_type \<lparr>status = 404, content_type = TextHtml,
                  payload = Raw ''did:op:abc asset DID is not in OceanDB''\<rparr> = ApplicationJson \<or>
    (\<exists>did. (GET_metadata_did ''did:op:abc'' = GET_ddo_did did \<or>
            GET_metadata_did ''did:op:abc'' = GET_metadata_did did \<or>
            GET_metadata_did ''did:op:abc'' = PUT_ddo_update_did did \<or>
            GET_metadata_did ''did:op:abc'' = DELETE_ddo_did did) \<and>
           \<lparr>status = 404, content_type = TextHtml,
            payload = Raw ''did:op:abc asset DID is not in OceanDB''\<rparr> =
           \<lparr>status = 404, content_type = TextHtml,
            payload = Raw (did @ '' asset DID is not in OceanDB'')\<rparr>))"
proof -
  have run: "assets demo_env (GET_ddo_did ''did:op:zzz'')
       \<lparr>remote_addr = ''10.0.0.7'', req_json = JNull\<rparr> demo_store =
       (Inr \<lparr>status = 404, content_type = TextHtml,
             payload = Raw ''did:op:zzz asset DID is not in OceanDB''\<rparr>, demo_store,
        [DaoGet ''did:op:zzz''])"
    by (simp add: get_ddo_def demo_env_def demo_store_def not_in_oceandb_def)
  have run_metadata: "assets demo_env (GET_metadata_did ''did:op:abc'')
       \<lparr>remote_addr = ''10.0.0.7'', req_json = JNull\<rparr> demo_store =
       (Inr \<lparr>status = 404, content_type = TextHtml,
             payload = Raw ''did:op:abc asset DID is not in OceanDB''\<rparr>, demo_store,
        [DaoGet ''did:op:abc''])"
    by (simp add: get_metadata_def demo_env_def demo_store_def not_in_oceandb_def)
  from responses_json_or_not_in_oceandb [OF run] responses_json_or_not_in_oceandb [OF run_metadata]
    run run_metadata
  show ?thesis by blast
qed

text \<open>
  C6 as it was stated does not hold: when \<^verbatim>\<open>dao.get\<close> raises inside the \<^verbatim>\<open>try\<close>
  of PUT or of DELETE, the \<^verbatim>\<open>except\<close> branch returns the text
  \<^verbatim>\<open><did> asset DID is not in OceanDB\<close> with status 404, not JSON.
\<close>

theorem update_delist_text_404_counterexample:
  "assets demo_env (PUT_ddo_update_did ''did:op:zzz'')
     \<lparr>remote_addr = ''127.0.0.1'', req_json = JObj [(''note'', JStr ''refresh'')]\<rparr> demo_store =
     (Inr \<lparr>status = 404, content_type = TextHtml,
           payload = Raw ''did:op:zzz asset DID is not in OceanDB''\<rparr>, demo_store,
      [DaoGet ''did:op:zzz'']) \<and>
   assets demo_env (DELETE_ddo_did ''did:op:zzz'')
     \<lparr>remote_addr = ''10.0.0.7'',
      req_json = JObj [(''adminAddress'', JStr ''0xAbC''), (''signature'', JStr ''sig-abc'')]\<rparr>
     demo_store =
     (Inr \<lparr>status = 404, content_type = TextHtml,
           payload = Raw ''did:op:zzz asset DID is not in OceanDB''\<rparr>, demo_store,
      [DaoGet ''did:op:zzz''])"
  by (simp add: update_ddo_info_def delist_ddo_def demo_env_def demo_store_def dict_get_def
        not_in_oceandb_def has_update_request_permission_def signer_differs_def ascii_lower_def
        ascii_lower_char_def)

section \<open>Reconciliation is idempotent\<close>

lemma position_le_refl: "position_le p p"
  by (simp add: position_le_def)

lemma write_plus_main:
  "write_plus cenv record idx = Some (idx', ws) \<Longrightarrow> main_index idx' = main_index idx"
  by (auto simp: write_plus_def plus_plan_def split: option.splits if_splits)

lemma apply_event_fields:
  "rec_id (apply_event ev record) = rec_id record"
  "dataTokenInfo (apply_event ev record) = dataTokenInfo record"
  "needs_reconciliation (apply_event ev record) = needs_reconciliation record"
  "last_processed (apply_event ev record) = ev_position ev"
  by (simp_all add: apply_event_def split: event_kind.splits)

lemma store_both_stored:
  assumes "store_both cenv record idx = (idx', ws)"
  shows "map_of (main_index idx') (rec_id record) = Some record \<or>
         map_of (main_index idx') (rec_id record) =
           Some (record\<lparr>needs_reconciliation := True\<rparr>)"
  using assms
  by (auto simp: store_both_def Let_def update_conv' dest: write_plus_main
           split: option.splits prod.splits)

text \<open>A record that is not flagged and whose marker is at or past the newest event.\<close>

lemma up_to_date_noop:
  assumes "dataTokenInfo record = Some address"
    and "chain_events cenv address = Some events"
    and "\<not> needs_reconciliation record"
    and "newest_event events = None \<or>
         (\<exists>ev. newest_event events = Some ev \<and>
               position_le (ev_position ev) (last_processed record))"
  shows "do_single_update_spec cenv record idx = (Inr (), idx, [])"
  using assms by (auto simp: do_single_update_spec_def apply_newest_def)

lemma apply_newest_reconciled:
  assumes run: "apply_newest cenv events record idx = (Inr (), idx', ws)"
    and stored: "map_of (main_index idx) (rec_id record) = Some record"
    and after: "map_of (main_index idx') (rec_id record) = Some record'"
    and clean: "\<not> needs_reconciliation record'"
  shows "dataTokenInfo record' = dataTokenInfo record \<and>
         (newest_event events = None \<or>
          (\<exists>ev. newest_event events = Some ev \<and>
                position_le (ev_position ev) (last_processed record')))"
proof (cases "newest_event events")
  case None
  with run stored after show ?thesis by (simp add: apply_newest_def)
next
  case (Some ev)
  show ?thesis
  proof (cases "position_le (ev_position ev) (last_processed record)")
    case True
    with Some run stored after show ?thesis by (simp add: apply_newest_def)
  next
    case False
    with Some run obtain ws' where sb: "store_both cenv (apply_event ev record) idx = (idx', ws')"
      by (auto simp: apply_newest_def Let_def split: prod.splits)
    from store_both_stored [OF sb] after clean
    have "record' = apply_event ev record"
      by (auto simp: apply_event_fields)
    with Some show ?thesis by (simp add: apply_event_fields position_le_refl)
  qed
qed

text \<open>
  C4. On the contract of \<^verbatim>\<open>do_single_update\<close>: take a call on the record as it is
  stored that returns success and leaves the record of that DID unflagged. Then, as long
  as the Chain Event Source reports the same events, a further call on the record now
  stored returns success, makes no write and leaves both indices as they are. Since
  nothing changes, the same holds for every call after that. What decides it is the
  last-processed marker, which the first call left at or past the newest event.
\<close>

theorem do_single_update_idempotent:
  assumes first: "do_single_update_spec cenv record idx = (Inr (), idx', writes)"
    and stored: "map_of (main_index idx) (rec_id record) = Some record"
    and after: "map_of (main_index idx') (rec_id record) = Some record'"
    and clean: "\<not> needs_reconciliation record'"
    and same_chain: "chain_events cenv' = chain_events cenv"
  shows "do_single_update_spec cenv' record' idx' = (Inr (), idx', [])"
proof -
  from first obtain address events where a: "dataTokenInfo record = Some address"
    and e: "chain_events cenv address = Some events"
    by (auto simp: do_single_update_spec_def split: option.splits)
  have "dataTokenInfo record' = dataTokenInfo record \<and>
        (newest_event events = None \<or>
         (\<exists>ev. newest_event events = Some ev \<and>
               position_le (ev_position ev) (last_processed record')))"
  proof (cases "needs_reconciliation record")
    case False
    with first a e have "apply_newest cenv events record idx = (Inr (), idx', writes)"
      by (simp add: do_single_update_spec_def)
    from apply_newest_reconciled [OF this stored after clean] show ?thesis .
  next
    case True
    show ?thesis
    proof (cases "write_plus cenv record idx")
      case None
      with first a e True have "idx' = idx" by (simp add: do_single_update_spec_def)
      with stored after have "record' = record" by simp
      with True clean show ?thesis by simp
    next
      case (Some r)
      obtain idx1 ws where r: "r = (idx1, ws)" by (cases r)
      let ?rep = "record\<lparr>needs_reconciliation := False\<rparr>"
      let ?idx2 = "apply_write (PutMain (rec_id record) ?rep) idx1"
      from first a e True Some r obtain ws' where
        run: "apply_newest cenv events ?rep ?idx2 = (Inr (), idx', ws')"
        by (auto simp: do_single_update_spec_def Let_def split: prod.splits)
      have st: "map_of (main_index ?idx2) (rec_id ?rep) = Some ?rep"
        by (simp add: update_conv')
      from after have after': "map_of (main_index idx') (rec_id ?rep) = Some record'" by simp
      from apply_newest_reconciled [OF run st after' clean] show ?thesis by simp
    qed
  qed
  then show ?thesis
    using a e clean same_chain up_to_date_noop [of record' address cenv' events idx'] by simp
qed

text \<open>
  The end-to-end scenario of the specification: the retirement at block 100 is applied
  once, marker 90 moves to 100, the plus entry goes; the second call, even with the plus
  index failing, writes nothing.
\<close>

theorem do_single_update_idempotent_witness:
  "do_single_update_spec demo_chain demo_record demo_indices =
     (Inr (), demo_retired_indices,
      [PutMain ''did:op:abc'' demo_retired_record, DeletePlus ''did:op:abc'']) \<and>
   map_of (main_index demo_indices) (rec_id demo_record) = Some demo_record \<and>
   map_of (main_index demo_retired_indices) (rec_id demo_record) = Some demo_retired_record \<and>
   \<not> needs_reconciliation demo_retired_record \<and>
   chain_events (demo_chain\<lparr>plus_writable := False\<rparr>) = chain_events demo_chain \<and>
   do_single_update_spec (demo_chain\<lparr>plus_writable := False\<rparr>) demo_retired_record
     demo_retired_indices = (Inr (), demo_retired_indices, [])"
proof -
  have first: "do_single_update_spec demo_chain demo_record demo_indices =
     (Inr (), demo_retired_indices,
      [PutMain ''did:op:abc'' demo_retired_record, DeletePlus ''did:op:abc''])"
    by (simp add: do_single_update_spec_def apply_newest_def store_both_def write_plus_def
          plus_plan_def apply_event_def position_le_def demo_chain_def demo_record_def
          demo_indices_def demo_retired_record_def demo_retired_indices_def Let_def)
  have stored: "map_of (main_index demo_indices) (rec_id demo_record) = Some demo_record"
    by (simp add: demo_indices_def demo_record_def)
  have after: "map_of (main_index demo_retired_indices) (rec_id demo_record) =
      Some demo_retired_record"
    by (simp add: demo_retired_indices_def demo_record_def)
  have clean: "\<not> needs_reconciliation demo_retired_record"
    by (simp add: demo_retired_record_def demo_record_def)
  have chain: "chain_events (demo_chain\<lparr>plus_writable := False\<rparr>) = chain_events demo_chain"
    by simp
  from do_single_update_idempotent [OF first stored after clean chain]
    first stored after clean chain
  show ?thesis by simp
qed

end
